theory Spec2Isabelle
  imports Complex_Main
begin

section \<open>Numbers, points and the 4x4 matrix module\<close>

text \<open>
  The view transform of \<open>Map.Camera\<close> (fov, pitch, bearing, the derived matrices and the
  two point projectors) and its consumer \<open>PointSymbolizer._getRotationAt\<close>.

  JavaScript numbers are modelled by the reals: this is the idealised, infinite-precision
  reading of the arithmetic. A field that may be \<open>undefined\<close> is a \<open>real option\<close>; the
  test \<open>!v\<close> of the source is \<open>falsy v\<close> (undefined or zero). Division is the total
  division of HOL; statements that depend on a quotient say when its divisor is not zero.
\<close>

definition falsy :: "real option \<Rightarrow> bool" where
  "falsy v = (case v of None \<Rightarrow> True | Some r \<Rightarrow> r = 0)"

definition RADIAN :: real where
  "RADIAN = pi / 180"

definition DEFAULT_FOV :: real where
  "DEFAULT_FOV = 0.6435011087932844"

datatype point = Point (px: real) (py: real)

definition p_add :: "point \<Rightarrow> real \<Rightarrow> real \<Rightarrow> point" where
  "p_add p dx dy = Point (px p + dx) (py p + dy)"

definition p_sub :: "point \<Rightarrow> point \<Rightarrow> point" where
  "p_sub p q = Point (px p - px q) (py p - py q)"

definition p_multi :: "point \<Rightarrow> real \<Rightarrow> point" where
  "p_multi p k = Point (px p * k) (py p * k)"

text \<open>
  Modelled from the spec: \<open>clamp\<close>, \<open>wrap\<close> and \<open>interpolate\<close> of \<open>core/util\<close>, which the
  camera code imports. \<open>clamp\<close> limits a value to a closed range; \<open>wrap\<close> brings a value
  into the range that excludes \<open>lo\<close> and includes \<open>hi\<close> by modular arithmetic (for the
  bearing: into (-180, 180]); \<open>interpolate\<close> is linear interpolation.
\<close>

definition clamp :: "real \<Rightarrow> real \<Rightarrow> real \<Rightarrow> real" where
  "clamp n lo hi = min hi (max lo n)"

definition wrap :: "real \<Rightarrow> real \<Rightarrow> real \<Rightarrow> real" where
  "wrap n lo hi =
     (let d = hi - lo;
          w = (n - lo) - d * of_int \<lfloor>(n - lo) / d\<rfloor> + lo
      in if w = lo then hi else w)"

definition interpolate :: "real \<Rightarrow> real \<Rightarrow> real \<Rightarrow> real" where
  "interpolate a b t = a * (1 - t) + b * t"

text \<open>
  Modelled from the spec: the matrix algebra module \<open>core/util/mat4\<close> (multiply, scale,
  translate, rotate about X and Z, perspective construction, invert), with the layout and
  the formulas of glMatrix, from which the camera code is taken. A matrix is an array of
  16 numbers in column-major order; here it is the tuple of its four columns, so that
  entry \<open>4 * c + r\<close> of the array is component \<open>r\<close> of column \<open>c\<close>. Every operation
  multiplies the running matrix from the right, as step 6 of the matrix builder says.
\<close>

type_synonym vec4 = "real \<times> real \<times> real \<times> real"
type_synonym mat4 = "vec4 \<times> vec4 \<times> vec4 \<times> vec4"

fun vadd :: "vec4 \<Rightarrow> vec4 \<Rightarrow> vec4" where
  "vadd (a0, a1, a2, a3) (b0, b1, b2, b3) = (a0 + b0, a1 + b1, a2 + b2, a3 + b3)"

fun smul :: "real \<Rightarrow> vec4 \<Rightarrow> vec4" where
  "smul k (a0, a1, a2, a3) = (k * a0, k * a1, k * a2, k * a3)"

fun transformMat4 :: "vec4 \<Rightarrow> mat4 \<Rightarrow> vec4" where
  "transformMat4 (x, y, z, w) (c0, c1, c2, c3) =
     vadd (vadd (vadd (smul x c0) (smul y c1)) (smul z c2)) (smul w c3)"

definition create :: mat4 where
  "create = ((1, 0, 0, 0), (0, 1, 0, 0), (0, 0, 1, 0), (0, 0, 0, 1))"

fun multiply :: "mat4 \<Rightarrow> mat4 \<Rightarrow> mat4" where
  "multiply a (b0, b1, b2, b3) =
     (transformMat4 b0 a, transformMat4 b1 a, transformMat4 b2 a, transformMat4 b3 a)"

fun scale :: "mat4 \<Rightarrow> real \<times> real \<times> real \<Rightarrow> mat4" where
  "scale (c0, c1, c2, c3) (x, y, z) = (smul x c0, smul y c1, smul z c2, c3)"

fun translate :: "mat4 \<Rightarrow> real \<times> real \<times> real \<Rightarrow> mat4" where
  "translate (c0, c1, c2, c3) (x, y, z) =
     (c0, c1, c2, vadd (vadd (vadd (smul x c0) (smul y c1)) (smul z c2)) c3)"

fun rotateX :: "mat4 \<Rightarrow> real \<Rightarrow> mat4" where
  "rotateX (c0, c1, c2, c3) rad =
     (c0, vadd (smul (cos rad) c1) (smul (sin rad) c2),
      vadd (smul (cos rad) c2) (smul (- sin rad) c1), c3)"

fun rotateZ :: "mat4 \<Rightarrow> real \<Rightarrow> mat4" where
  "rotateZ (c0, c1, c2, c3) rad =
     (vadd (smul (cos rad) c0) (smul (sin rad) c1),
      vadd (smul (cos rad) c1) (smul (- sin rad) c0), c2, c3)"

definition perspective :: "real \<Rightarrow> real \<Rightarrow> real \<Rightarrow> real \<Rightarrow> mat4" where
  "perspective fovy aspect near far =
     (let f = 1 / tan (fovy / 2); nf = 1 / (near - far)
      in ((f / aspect, 0, 0, 0), (0, f, 0, 0),
          (0, 0, (far + near) * nf, - 1), (0, 0, 2 * far * near * nf, 0)))"

definition determinant :: "mat4 \<Rightarrow> real" where
  "determinant a =
     (case a of ((a00, a01, a02, a03), (a10, a11, a12, a13),
                 (a20, a21, a22, a23), (a30, a31, a32, a33)) \<Rightarrow>
      let b00 = a00 * a11 - a01 * a10; b01 = a00 * a12 - a02 * a10;
          b02 = a00 * a13 - a03 * a10; b03 = a01 * a12 - a02 * a11;
          b04 = a01 * a13 - a03 * a11; b05 = a02 * a13 - a03 * a12;
          b06 = a20 * a31 - a21 * a30; b07 = a20 * a32 - a22 * a30;
          b08 = a20 * a33 - a23 * a30; b09 = a21 * a32 - a22 * a31;
          b10 = a21 * a33 - a23 * a31; b11 = a22 * a33 - a23 * a32
      in b00 * b11 - b01 * b10 + b02 * b09 + b03 * b08 - b04 * b07 + b05 * b06)"

definition adjugate :: "mat4 \<Rightarrow> mat4" where
  "adjugate a =
     (case a of ((a00, a01, a02, a03), (a10, a11, a12, a13),
                 (a20, a21, a22, a23), (a30, a31, a32, a33)) \<Rightarrow>
      let b00 = a00 * a11 - a01 * a10; b01 = a00 * a12 - a02 * a10;
          b02 = a00 * a13 - a03 * a10; b03 = a01 * a12 - a02 * a11;
          b04 = a01 * a13 - a03 * a11; b05 = a02 * a13 - a03 * a12;
          b06 = a20 * a31 - a21 * a30; b07 = a20 * a32 - a22 * a30;
          b08 = a20 * a33 - a23 * a30; b09 = a21 * a32 - a22 * a31;
          b10 = a21 * a33 - a23 * a31; b11 = a22 * a33 - a23 * a32
      in ((a11 * b11 - a12 * b10 + a13 * b09, a02 * b10 - a01 * b11 - a03 * b09,
           a31 * b05 - a32 * b04 + a33 * b03, a22 * b04 - a21 * b05 - a23 * b03),
          (a12 * b08 - a10 * b11 - a13 * b07, a00 * b11 - a02 * b08 + a03 * b07,
           a32 * b02 - a30 * b05 - a33 * b01, a20 * b05 - a22 * b02 + a23 * b01),
          (a10 * b10 - a11 * b08 + a13 * b06, a01 * b08 - a00 * b10 - a03 * b06,
           a30 * b04 - a31 * b02 + a33 * b00, a21 * b02 - a20 * b04 - a23 * b00),
          (a11 * b07 - a10 * b09 - a12 * b06, a00 * b09 - a01 * b07 + a02 * b06,
           a31 * b01 - a30 * b03 - a32 * b00, a20 * b03 - a21 * b01 + a22 * b00)))"

text \<open>
  \<open>invert\<close> returns \<open>null\<close> (here \<open>None\<close>) when the determinant is falsy, and otherwise the
  cofactor matrix scaled by the reciprocal of the determinant.
\<close>

definition invert :: "mat4 \<Rightarrow> mat4 option" where
  "invert a =
     (let det = determinant a
      in if det = 0 then None
         else (case adjugate a of (c0, c1, c2, c3) \<Rightarrow>
                 Some (smul (1 / det) c0, smul (1 / det) c1,
                       smul (1 / det) c2, smul (1 / det) c3)))"

section \<open>The map and its camera state\<close>

text \<open>
  The part of the \<open>Map\<close> object the camera code reads and writes. \<open>zooming\<close> is what
  \<open>isZooming()\<close> answers and \<open>ie9\<close> is \<open>Browser.ie9\<close>. \<open>centerPoint\<close> and \<open>resolution\<close>
  stand for the collaborators \<open>_prjToPoint(_getPrjCenter(), zoom)\<close> and
  \<open>_getResolution(zoom)\<close>, whose argument is an optional zoom (\<open>None\<close> is the current
  zoom). \<open>trace\<close> records, in order, the recomputations, render passes and events that
  the setters issue; the newest entry is first.
\<close>

datatype error = CannotRotate | CannotTilt | InvertFailed | TypeError

datatype action = CalcMatrices | RenderLayers | FireEvent string real real

record map_state =
  fov :: "real option"
  pitch :: "real option"
  angle :: "real option"
  width :: real
  height :: "real option"
  cameraToCenterDistance :: "real option"
  projMatrix :: "mat4 option"
  pixelMatrix :: "mat4 option"
  pixelMatrixInverse :: "mat4 option"
  cameraMatrix :: "mat4 option"
  zooming :: bool
  ie9 :: bool
  centerPoint :: "real option \<Rightarrow> point"
  resolution :: "real option \<Rightarrow> real"
  maxZoom :: real
  trace :: "action list"

definition record_action :: "action \<Rightarrow> map_state \<Rightarrow> map_state" where
  "record_action a s = s\<lparr>trace := a # trace s\<rparr>"

definition getFov :: "map_state \<Rightarrow> real \<times> map_state" where
  "getFov s =
     (let s1 = (if falsy (fov s) then s\<lparr>fov := Some DEFAULT_FOV\<rparr> else s)
      in (the (fov s1) / RADIAN, s1))"

definition getBearing :: "map_state \<Rightarrow> real" where
  "getBearing s = (if falsy (angle s) then 0 else - the (angle s) / RADIAN)"

definition getPitch :: "map_state \<Rightarrow> real" where
  "getPitch s = (if falsy (pitch s) then 0 else the (pitch s) / pi * 180)"

definition getCameraMatrix :: "map_state \<Rightarrow> mat4 option" where
  "getCameraMatrix s = cameraMatrix s"

definition clearMatrices :: "map_state \<Rightarrow> map_state" where
  "clearMatrices s =
     s\<lparr>projMatrix := None, pixelMatrix := None,
       pixelMatrixInverse := None, cameraMatrix := None\<rparr>"

definition renderLayers :: "map_state \<Rightarrow> map_state" where
  "renderLayers s = record_action RenderLayers s"

text \<open>
  \<open>_calcMatrices\<close>. The error of a failed inversion is raised after \<open>projMatrix\<close> and
  \<open>pixelMatrix\<close> have been stored, so the state that the error leaves behind is part of
  the result.

  \<open>topHalfSurfaceDistance\<close> and \<open>farZ\<close> are the local constants of the same names.
  Over the reals the divisor of \<open>topHalfSurfaceDistance\<close> is \<open>cos (pitch + fov / 2)\<close>,
  which is zero when pitch and half the field of view add up to a right angle; there the
  value of this model is not that of the program, whose doubles leave a rounding residue
  in the divisor.
\<close>

definition topHalfSurfaceDistance :: "real \<Rightarrow> real \<Rightarrow> real \<Rightarrow> real" where
  "topHalfSurfaceDistance fv pt ctc =
     (let halfFov = fv / 2; groundAngle = pi / 2 + pt
      in sin halfFov * ctc / sin (pi - groundAngle - halfFov))"

definition farZ :: "real \<Rightarrow> real \<Rightarrow> real \<Rightarrow> real" where
  "farZ fv pt ctc =
     (let furthestDistance = cos (pi / 2 - pt) * topHalfSurfaceDistance fv pt ctc + ctc
      in furthestDistance * 1.01)"

definition calcMatrices :: "map_state \<Rightarrow> (error + unit) \<times> map_state" where
  "calcMatrices s0 =
     (if falsy (height s0) then (Inr (), s0)
      else
        let s1 = (if falsy (fov s0) then s0\<lparr>fov := Some DEFAULT_FOV\<rparr> else s0);
            s2 = (if falsy (pitch s1) then s1\<lparr>pitch := Some 0\<rparr> else s1);
            s3 = (if falsy (angle s2) then s2\<lparr>angle := Some 0\<rparr> else s2)
        in if falsy (pitch s3) \<and> falsy (angle s3) then (Inr (), clearMatrices s3)
           else
             let w = width s3; h = the (height s3);
                 fv = the (fov s3); pt = the (pitch s3); an = the (angle s3);
                 c = centerPoint s3 None;
                 ctc = 0.5 / tan (fv / 2) * h;
                 m0 = perspective fv (w / h) 1 (farZ fv pt ctc);
                 m1 = scale m0 (1, - 1, 1);
                 m2 = translate m1 (0, 0, - ctc);
                 m3 = rotateX m2 pt;
                 m4 = rotateZ m3 an;
                 m5 = translate m4 (- px c, - py c, 0);
                 sm = translate (scale create (w / 2, - h / 2, 1)) (1, - 1, 0);
                 pm = multiply sm m5;
                 s4 = s3\<lparr>cameraToCenterDistance := Some ctc, projMatrix := Some m5,
                        pixelMatrix := Some pm\<rparr>
             in (case invert pm of
                   None \<Rightarrow> (Inl InvertFailed, s4)
                 | Some mi \<Rightarrow>
                     let cm = multiply (scale create (w / 2, - h / 2, 1)) m4
                     in (Inr (), s4\<lparr>pixelMatrixInverse := Some mi,
                                    cameraMatrix := Some cm\<rparr>)))"

text \<open>
  The three setters. Each returns the map (here: the new state) or raises; a raise keeps
  the state reached so far.
\<close>

definition setFov :: "real \<Rightarrow> map_state \<Rightarrow> (error + unit) \<times> map_state" where
  "setFov v s =
     (if zooming s then (Inr (), s)
      else
        let f = max 0.01 (min 60 v)
        in if fov s = Some f then (Inr (), s)
           else
             let (from, s1) = getFov s;
                 s2 = s1\<lparr>fov := Some (f * RADIAN)\<rparr>
             in (case calcMatrices (record_action CalcMatrices s2) of
                   (Inl e, s3) \<Rightarrow> (Inl e, s3)
                 | (Inr u, s3) \<Rightarrow>
                     let s4 = renderLayers s3;
                         (to, s5) = getFov s4
                     in (Inr (), record_action (FireEvent ''fovchange'' from to) s5)))"

definition setBearing :: "real \<Rightarrow> map_state \<Rightarrow> (error + unit) \<times> map_state" where
  "setBearing bearing s =
     (if ie9 s then (Inl CannotRotate, s)
      else if zooming s then (Inr (), s)
      else
        let b = - wrap bearing (- 180) 180 * RADIAN
        in if angle s = Some b then (Inr (), s)
           else
             let from = getBearing s;
                 s1 = s\<lparr>angle := Some b\<rparr>
             in (case calcMatrices (record_action CalcMatrices s1) of
                   (Inl e, s2) \<Rightarrow> (Inl e, s2)
                 | (Inr u, s2) \<Rightarrow>
                     (Inr (), record_action (FireEvent ''rotate'' from b) (renderLayers s2))))"

definition setPitch :: "real \<Rightarrow> map_state \<Rightarrow> (error + unit) \<times> map_state" where
  "setPitch v s =
     (if ie9 s then (Inl CannotTilt, s)
      else if zooming s then (Inr (), s)
      else
        let p = clamp v 0 60 * RADIAN
        in if pitch s = Some p then (Inr (), s)
           else
             let from = getPitch s;
                 s1 = s\<lparr>pitch := Some p\<rparr>
             in (case calcMatrices (record_action CalcMatrices s1) of
                   (Inl e, s2) \<Rightarrow> (Inl e, s2)
                 | (Inr u, s2) \<Rightarrow>
                     (Inr (), record_action (FireEvent ''pitch'' from p) (renderLayers s2))))"

section \<open>The point projector\<close>

text \<open>
  Modelled from the spec: the zoom rescaling \<open>_pointToPoint\<close> and \<open>_pointToPointAtZoom\<close>
  of the map, which the projector delegates to: a scalar multiplication by the ratio of
  the resolutions of the two zooms, and the identity when no zoom is given.
\<close>

definition pointToPoint :: "map_state \<Rightarrow> point \<Rightarrow> real option \<Rightarrow> point" where
  "pointToPoint s p zoom =
     (case zoom of
        None \<Rightarrow> p
      | Some z \<Rightarrow> p_multi p (resolution s (Some z) / resolution s None))"

definition pointToPointAtZoom :: "map_state \<Rightarrow> point \<Rightarrow> real option \<Rightarrow> point" where
  "pointToPointAtZoom s p zoom =
     (case zoom of
        None \<Rightarrow> p
      | Some z \<Rightarrow> p_multi p (resolution s None / resolution s (Some z)))"

definition pointToContainerPoint :: "map_state \<Rightarrow> point \<Rightarrow> real option \<Rightarrow> point" where
  "pointToContainerPoint s p0 zoom =
     (let p = pointToPoint s p0 zoom
      in case pixelMatrix s of
           Some m \<Rightarrow>
             (case transformMat4 (px p, py p, 0, 1) m of
                (t0, t1, t2, t3) \<Rightarrow> Point (t0 / t3) (t1 / t3))
         | None \<Rightarrow>
             p_add (p_sub p (centerPoint s None)) (width s / 2) (the (height s) / 2))"

definition containerPointToPoint :: "map_state \<Rightarrow> point \<Rightarrow> real option \<Rightarrow> point" where
  "containerPointToPoint s p zoom =
     (case pixelMatrixInverse s of
        Some mi \<Rightarrow>
          (case transformMat4 (px p, py p, 0, 1) mi of
             (c00, c01, c02, w0) \<Rightarrow>
               (case transformMat4 (px p, py p, 1, 1) mi of
                  (c10, c11, c12, w1) \<Rightarrow>
                    let targetZ = 0;
                        x0 = c00 / w0; x1 = c10 / w1;
                        y0 = c01 / w0; y1 = c11 / w1;
                        z0 = c02 / w0; z1 = c12 / w1;
                        t = (if z0 = z1 then 0 else (targetZ - z0) / (z1 - z0));
                        cp = Point (interpolate x0 x1 t) (interpolate y0 y1 t)
                    in (case zoom of None \<Rightarrow> cp | Some z \<Rightarrow> pointToPointAtZoom s cp zoom)))
      | None \<Rightarrow>
          let c = centerPoint s zoom;
              k = (case zoom of
                     None \<Rightarrow> 1
                   | Some z \<Rightarrow> resolution s None / resolution s zoom);
              x = k * (px p - width s / 2);
              y = k * (py p - the (height s) / 2)
          in p_add c x y)"

section \<open>The point symbolizer\<close>

text \<open>
  \<open>PointSymbolizer._getRotationAt\<close>. \<open>rotation\<close> is what \<open>getRotation()\<close> answers and
  \<open>rotations\<close> the second component of \<open>_getRenderPoints()\<close>. The directional angle
  \<open>computeDegree\<close> of \<open>core/util\<close> is a parameter. Reading an index that the array
  does not have raises a type error in the source.
\<close>

record symbolizer =
  rotation :: "real option"
  rotations :: "(point \<times> point) list option"

definition getRotationAt ::
  "(point \<Rightarrow> point \<Rightarrow> real) \<Rightarrow> map_state \<Rightarrow> symbolizer \<Rightarrow> nat \<Rightarrow> error + real option" where
  "getRotationAt computeDegree m smb i =
     (case rotations smb of
        None \<Rightarrow> Inr (rotation smb)
      | Some rs \<Rightarrow>
          let r = (if falsy (rotation smb) then 0 else the (rotation smb))
          in if i < length rs then
               let p0 = fst (rs ! i); p1 = snd (rs ! i);
                   q0 = (if getCameraMatrix m \<noteq> None
                         then pointToContainerPoint m p0 (Some (maxZoom m)) else p0);
                   q1 = (if getCameraMatrix m \<noteq> None
                         then pointToContainerPoint m p1 (Some (maxZoom m)) else p1)
               in Inr (Some (r + computeDegree q0 q1))
             else Inl TypeError)"

section \<open>Example maps\<close>

text \<open>
  A map with a viewport of 800 by 600 pixels whose camera has not been touched, its centre
  at the origin of map space and the same resolution at every zoom.
\<close>

definition fresh_map :: map_state where
  "fresh_map =
     \<lparr>fov = None, pitch = None, angle = None, width = 800, height = Some 600,
      cameraToCenterDistance = None, projMatrix = None, pixelMatrix = None,
      pixelMatrixInverse = None, cameraMatrix = None, zooming = False, ie9 = False,
      centerPoint = (\<lambda>z. Point 0 0), resolution = (\<lambda>z. 1), maxZoom = 18, trace = []\<rparr>"

section \<open>The matrices that the builder stores\<close>

text \<open>
  Names for what \<open>_calcMatrices\<close> computes, used to state and prove its properties:
  the value a camera field has after the builder has put in its default, the screen-space
  matrix of step 10, the matrix before the centre translation (step 7) and the pixel
  matrix (step 10).
\<close>

definition effective :: "real \<Rightarrow> real option \<Rightarrow> real" where
  "effective d v = (if falsy v then d else the v)"

definition screen_matrix :: "real \<Rightarrow> real \<Rightarrow> mat4" where
  "screen_matrix w h = translate (scale create (w / 2, - h / 2, 1)) (1, - 1, 0)"

definition camera_basis :: "real \<Rightarrow> real \<Rightarrow> real \<Rightarrow> real \<Rightarrow> real \<Rightarrow> mat4" where
  "camera_basis fv pt an w h =
     (let ctc = 0.5 / tan (fv / 2) * h
      in rotateZ (rotateX (translate (scale (perspective fv (w / h) 1 (farZ fv pt ctc))
           (1, - 1, 1)) (0, 0, - ctc)) pt) an)"

definition pixel_matrix :: "real \<Rightarrow> real \<Rightarrow> real \<Rightarrow> real \<Rightarrow> real \<Rightarrow> point \<Rightarrow> mat4" where
  "pixel_matrix fv pt an w h c =
     multiply (screen_matrix w h) (translate (camera_basis fv pt an w h) (- px c, - py c, 0))"

section \<open>Matrix algebra\<close>

lemma mat4_cases:
  obtains a00 a01 a02 a03 a10 a11 a12 a13 a20 a21 a22 a23 a30 a31 a32 a33 :: real
  where "a = ((a00, a01, a02, a03), (a10, a11, a12, a13),
              (a20, a21, a22, a23), (a30, a31, a32, a33))"
proof -
  obtain a0 a1 a2 a3 where a: "a = (a0, a1, a2, a3)" by (cases a) auto
  obtain a00 a01 a02 a03 where a0: "a0 = (a00, a01, a02, a03)" by (cases a0) auto
  obtain a10 a11 a12 a13 where a1: "a1 = (a10, a11, a12, a13)" by (cases a1) auto
  obtain a20 a21 a22 a23 where a2: "a2 = (a20, a21, a22, a23)" by (cases a2) auto
  obtain a30 a31 a32 a33 where a3: "a3 = (a30, a31, a32, a33)" by (cases a3) auto
  show thesis using that a a0 a1 a2 a3 by blast
qed

lemma transformMat4_create: "transformMat4 v create = v"
  by (cases v) (simp add: create_def)

lemma transformMat4_multiply:
  "transformMat4 v (multiply a b) = transformMat4 (transformMat4 v b) a"
proof -
  obtain x y z w where v: "v = (x, y, z, w)"
    by (cases v) auto
  show ?thesis
    unfolding v
    by (cases a rule: mat4_cases, cases b rule: mat4_cases) (simp add: algebra_simps)
qed

lemma multiply_assoc: "multiply (multiply a b) c = multiply a (multiply b c)"
  by (cases c) (simp add: transformMat4_multiply)

lemma multiply_create_right: "multiply a create = a"
  by (cases a rule: mat4_cases) (simp add: create_def)

lemma multiply_create_left: "multiply create a = a"
  by (cases a) (simp add: transformMat4_create)

lemma adjugate_right:
  "multiply a (adjugate a) =
     (smul (determinant a) (1, 0, 0, 0), smul (determinant a) (0, 1, 0, 0),
      smul (determinant a) (0, 0, 1, 0), smul (determinant a) (0, 0, 0, 1))"
  by (cases a rule: mat4_cases)
     (simp add: adjugate_def determinant_def Let_def algebra_simps)

lemma transformMat4_scale:
  "transformMat4 (x, y, z, w) (scale a (kx, ky, kz)) = transformMat4 (kx * x, ky * y, kz * z, w) a"
  by (cases a rule: mat4_cases) (simp add: algebra_simps)

lemma transformMat4_translate:
  "transformMat4 (x, y, z, w) (translate a (tx, ty, tz)) =
     transformMat4 (x + tx * w, y + ty * w, z + tz * w, w) a"
  by (cases a rule: mat4_cases) (simp add: algebra_simps)

lemma transformMat4_rotateX:
  "transformMat4 (x, y, z, w) (rotateX a r) =
     transformMat4 (x, cos r * y - sin r * z, sin r * y + cos r * z, w) a"
  by (cases a rule: mat4_cases) (simp add: algebra_simps)

lemma transformMat4_rotateZ:
  "transformMat4 (x, y, z, w) (rotateZ a r) =
     transformMat4 (cos r * x - sin r * y, sin r * x + cos r * y, z, w) a"
  by (cases a rule: mat4_cases) (simp add: algebra_simps)

lemma determinant_scale:
  "determinant (scale a (kx, ky, kz)) = kx * ky * kz * determinant a"
  by (cases a rule: mat4_cases) (simp add: determinant_def Let_def algebra_simps)

lemma determinant_translate:
  "determinant (translate a (tx, ty, tz)) = determinant a"
  by (cases a rule: mat4_cases) (simp add: determinant_def Let_def algebra_simps)

lemma determinant_mix12:
  "determinant (c0, vadd (smul c c1) (smul s c2), vadd (smul c c2) (smul (- s) c1), c3) =
     (c * c + s * s) * determinant (c0, c1, c2, c3)"
  by (cases "(c0, c1, c2, c3)" rule: mat4_cases)
     (simp add: determinant_def Let_def algebra_simps)

lemma determinant_mix01:
  "determinant (vadd (smul c c0) (smul s c1), vadd (smul c c1) (smul (- s) c0), c2, c3) =
     (c * c + s * s) * determinant (c0, c1, c2, c3)"
  by (cases "(c0, c1, c2, c3)" rule: mat4_cases)
     (simp add: determinant_def Let_def algebra_simps)

lemma cos_sin_square: "cos r * cos r + sin r * sin r = (1::real)"
  using sin_cos_squared_add2 [of r] by (simp add: power2_eq_square)

lemma determinant_rotateX: "determinant (rotateX a r) = determinant a"
  by (cases a) (simp add: determinant_mix12 cos_sin_square del: vadd.simps smul.simps)

lemma determinant_rotateZ: "determinant (rotateZ a r) = determinant a"
  by (cases a) (simp add: determinant_mix01 cos_sin_square del: vadd.simps smul.simps)

lemma determinant_screen:
  "determinant (multiply (translate (scale create (kx, ky, 1)) (1, - 1, 0)) a) =
     kx * ky * determinant a"
  by (cases a rule: mat4_cases) (simp add: create_def determinant_def Let_def algebra_simps)

lemma determinant_perspective:
  "determinant (perspective fovy aspect near far) =
     (1 / tan (fovy / 2) / aspect) * (1 / tan (fovy / 2)) * (2 * far * near * (1 / (near - far)))"
  by (simp add: perspective_def determinant_def Let_def)

lemma transformMat4_smul:
  "transformMat4 (smul k v) a = smul k (transformMat4 v a)"
proof -
  obtain x y z w where v: "v = (x, y, z, w)"
    by (cases v) auto
  show ?thesis
    unfolding v by (cases a rule: mat4_cases) (simp add: algebra_simps)
qed

lemma transformMat4_vadd:
  "transformMat4 (vadd u v) a = vadd (transformMat4 u a) (transformMat4 v a)"
proof -
  obtain x y z w where v: "v = (x, y, z, w)"
    by (cases v) auto
  obtain x' y' z' w' where u: "u = (x', y', z', w')"
    by (cases u) auto
  show ?thesis
    unfolding u v by (cases a rule: mat4_cases) (simp add: algebra_simps)
qed

lemma invert_right:
  assumes "invert a = Some ai"
  shows "multiply a ai = create"
proof -
  from assms have d: "determinant a \<noteq> 0"
    by (auto simp: invert_def Let_def split: if_splits)
  obtain c0 c1 c2 c3 where adj: "adjugate a = (c0, c1, c2, c3)"
    by (cases "adjugate a") auto
  with assms d have ai: "ai = (smul (1 / determinant a) c0, smul (1 / determinant a) c1,
      smul (1 / determinant a) c2, smul (1 / determinant a) c3)"
    by (auto simp: invert_def Let_def)
  from adjugate_right [of a] adj
  have "transformMat4 c0 a = smul (determinant a) (1, 0, 0, 0)"
    and "transformMat4 c1 a = smul (determinant a) (0, 1, 0, 0)"
    and "transformMat4 c2 a = smul (determinant a) (0, 0, 1, 0)"
    and "transformMat4 c3 a = smul (determinant a) (0, 0, 0, 1)"
    by simp_all
  with d show ?thesis
    unfolding ai by (simp add: transformMat4_smul create_def)
qed

lemma invert_apply:
  assumes "invert a = Some ai"
  shows "transformMat4 (transformMat4 v ai) a = v"
  using invert_right [OF assms] transformMat4_multiply [of v a ai]
  by (simp add: transformMat4_create)

section \<open>The matrix builder\<close>

lemma defaults_block:
  "(let s1 = (if falsy (fov s) then s\<lparr>fov := Some DEFAULT_FOV\<rparr> else s);
        s2 = (if falsy (pitch s1) then s1\<lparr>pitch := Some 0\<rparr> else s1);
        s3 = (if falsy (angle s2) then s2\<lparr>angle := Some 0\<rparr> else s2)
    in F s3) =
   F (s\<lparr>fov := Some (effective DEFAULT_FOV (fov s)), pitch := Some (effective 0 (pitch s)),
         angle := Some (effective 0 (angle s))\<rparr>)"
proof -
  define fv where "fv = effective DEFAULT_FOV (fov s)"
  define pt where "pt = effective 0 (pitch s)"
  define an where "an = effective 0 (angle s)"
  have 1: "(if falsy (fov s) then s\<lparr>fov := Some DEFAULT_FOV\<rparr> else s) = s\<lparr>fov := Some fv\<rparr>"
    by (cases "fov s") (auto simp: effective_def falsy_def fv_def)
  have 2: "(if falsy (pitch s) then s\<lparr>fov := Some fv, pitch := Some 0\<rparr>
        else s\<lparr>fov := Some fv\<rparr>) = s\<lparr>fov := Some fv, pitch := Some pt\<rparr>"
    by (cases "pitch s") (auto simp: effective_def falsy_def pt_def)
  have 3: "(if falsy (angle s)
        then s\<lparr>fov := Some fv, pitch := Some pt, angle := Some 0\<rparr>
        else s\<lparr>fov := Some fv, pitch := Some pt\<rparr>)
      = s\<lparr>fov := Some fv, pitch := Some pt, angle := Some an\<rparr>"
    by (cases "angle s") (auto simp: effective_def falsy_def an_def)
  have "(let s1 = (if falsy (fov s) then s\<lparr>fov := Some DEFAULT_FOV\<rparr> else s);
          s2 = (if falsy (pitch s1) then s1\<lparr>pitch := Some 0\<rparr> else s1);
          s3 = (if falsy (angle s2) then s2\<lparr>angle := Some 0\<rparr> else s2)
      in F s3) =
     (let s1 = s\<lparr>fov := Some fv\<rparr>;
          s2 = (if falsy (pitch s1) then s1\<lparr>pitch := Some 0\<rparr> else s1);
          s3 = (if falsy (angle s2) then s2\<lparr>angle := Some 0\<rparr> else s2)
      in F s3)"
    by (simp only: 1)
  also have "\<dots> = (let s2 = s\<lparr>fov := Some fv, pitch := Some pt\<rparr>;
          s3 = (if falsy (angle s2) then s2\<lparr>angle := Some 0\<rparr> else s2)
      in F s3)"
    using 2 by (simp add: Let_def)
  also have "\<dots> = F (s\<lparr>fov := Some fv, pitch := Some pt, angle := Some an\<rparr>)"
    using 3 by (simp add: Let_def)
  finally show ?thesis
    unfolding fv_def pt_def an_def .
qed

lemma calcMatrices_flat:
  assumes h: "height s = Some h" "h \<noteq> 0"
    and t: "effective 0 (pitch s) = 0" "effective 0 (angle s) = 0"
  shows "calcMatrices s =
     (Inr (), clearMatrices (s\<lparr>fov := Some (effective DEFAULT_FOV (fov s)),
        pitch := Some 0, angle := Some 0\<rparr>))"
proof -
  from h have nf: "\<not> falsy (height s)"
    by (simp add: falsy_def)
  show ?thesis
    unfolding calcMatrices_def
    by (simp only: nf if_False defaults_block) (simp add: t falsy_def)
qed

lemma calcMatrices_tilted:
  assumes h: "height s = Some h" "h \<noteq> 0"
    and t: "effective 0 (pitch s) \<noteq> 0 \<or> effective 0 (angle s) \<noteq> 0"
  shows "calcMatrices s =
     (let fv = effective DEFAULT_FOV (fov s); pt = effective 0 (pitch s);
          an = effective 0 (angle s);
          pm = pixel_matrix fv pt an (width s) h (centerPoint s None);
          s4 = s\<lparr>fov := Some fv, pitch := Some pt, angle := Some an,
                 cameraToCenterDistance := Some (0.5 / tan (fv / 2) * h),
                 projMatrix := Some (translate (camera_basis fv pt an (width s) h)
                     (- px (centerPoint s None), - py (centerPoint s None), 0)),
                 pixelMatrix := Some pm\<rparr>
      in case invert pm of
           None \<Rightarrow> (Inl InvertFailed, s4)
         | Some mi \<Rightarrow>
             (Inr (), s4\<lparr>pixelMatrixInverse := Some mi,
                cameraMatrix := Some (multiply (scale create (width s / 2, - h / 2, 1))
                    (camera_basis fv pt an (width s) h))\<rparr>))"
proof -
  from h have nf: "\<not> falsy (height s)"
    by (simp add: falsy_def)
  have 4: "(falsy (Some (effective 0 (pitch s))) \<and> falsy (Some (effective 0 (angle s)))) = False"
    using t by (simp add: falsy_def)
  show ?thesis
    unfolding calcMatrices_def
    apply (simp only: nf if_False defaults_block)
    using h
    by (simp add: 4 pixel_matrix_def screen_matrix_def camera_basis_def Let_def
          split: option.splits
          del: scale.simps translate.simps rotateX.simps rotateZ.simps multiply.simps)
qed

lemma transformMat4_perspective:
  "transformMat4 (a, b, c, d) (perspective fovy aspect near far) =
     (a * (1 / tan (fovy / 2) / aspect), b * (1 / tan (fovy / 2)),
      c * ((far + near) * (1 / (near - far))) + d * (2 * far * near * (1 / (near - far))), - c)"
  by (simp add: perspective_def Let_def)

lemma transformMat4_screen:
  "transformMat4 (a, b, c, d) (screen_matrix w h) = (w / 2 * (a + d), - h / 2 * (b - d), c, d)"
  by (simp add: screen_matrix_def transformMat4_translate transformMat4_scale
        transformMat4_create del: transformMat4.simps translate.simps scale.simps)

lemma pixel_apply:
  "transformMat4 (x, y, z, v) (pixel_matrix fv pt an w h c) =
     (let ctc = 0.5 / tan (fv / 2) * h; far = farZ fv pt ctc;
          x' = x + - px c * v; y' = y + - py c * v;
          r1 = cos an * x' - sin an * y'; r2 = sin an * x' + cos an * y';
          e2 = cos pt * r2 - sin pt * z; e3 = sin pt * r2 + cos pt * z + - ctc * v
      in (w / 2 * (r1 * (1 / tan (fv / 2) / (w / h)) + - e3),
          - h / 2 * (- 1 * e2 * (1 / tan (fv / 2)) - - e3),
          e3 * ((far + 1) * (1 / (1 - far))) + v * (2 * far * 1 * (1 / (1 - far))), - e3))"
  unfolding pixel_matrix_def camera_basis_def Let_def
  by (simp only: transformMat4_multiply transformMat4_translate transformMat4_rotateZ
        transformMat4_rotateX transformMat4_scale transformMat4_perspective
        transformMat4_screen) simp




lemma determinant_pixel_matrix:
  "determinant (pixel_matrix fv pt an w h c) =
     (w / 2) * (- h / 2) * (- 1) * ((1 / tan (fv / 2) / (w / h)) * (1 / tan (fv / 2)) *
        (2 * farZ fv pt (0.5 / tan (fv / 2) * h) * 1 *
           (1 / (1 - farZ fv pt (0.5 / tan (fv / 2) * h)))))"
  unfolding pixel_matrix_def camera_basis_def Let_def screen_matrix_def
  by (simp only: determinant_screen determinant_translate determinant_rotateZ
        determinant_rotateX determinant_scale determinant_perspective)

lemma invert_pixel_matrix:
  assumes "w \<noteq> 0" "h \<noteq> 0" "tan (fv / 2) \<noteq> 0"
    and "farZ fv pt (0.5 / tan (fv / 2) * h) \<noteq> 0"
    and "farZ fv pt (0.5 / tan (fv / 2) * h) \<noteq> 1"
  shows "\<exists>mi. invert (pixel_matrix fv pt an w h c) = Some mi"
proof -
  have "determinant (pixel_matrix fv pt an w h c) \<noteq> 0"
    unfolding determinant_pixel_matrix using assms by simp
  then show ?thesis
    by (simp add: invert_def Let_def split: prod.splits)
qed

lemma rotation_cancel:
  "c * ((s * r + c * u + - k * w) + k * w) - s * (c * r - s * u) = (c * c + s * s) * (u::real)"
  by (simp add: algebra_simps)

lemma unproject_components:
  assumes inv: "invert (pixel_matrix fv pt an w h c) = Some mi"
    and u: "transformMat4 (X, Y, d, 1) mi = (u0, u1, u2, u3)"
    and nz: "h \<noteq> 0" "tan (fv / 2) \<noteq> 0" "far \<noteq> 0" "far \<noteq> 1"
    and far: "far = farZ fv pt (0.5 / tan (fv / 2) * h)"
  shows "u3 = (d * (1 - far) + (far + 1)) / (2 * far)"
    and "u2 = cos pt * (0.5 / tan (fv / 2) * h) * u3
              - (cos pt - sin pt * (1 - 2 * Y / h) * tan (fv / 2))"
proof -
  define ctc where "ctc = 0.5 / tan (fv / 2) * h"
  define x' where "x' = u0 + - px c * u3"
  define y' where "y' = u1 + - py c * u3"
  define r1 where "r1 = cos an * x' - sin an * y'"
  define r2 where "r2 = sin an * x' + cos an * y'"
  define e2 where "e2 = cos pt * r2 - sin pt * u2"
  define e3 where "e3 = sin pt * r2 + cos pt * u2 + - ctc * u3"
  have "transformMat4 (u0, u1, u2, u3) (pixel_matrix fv pt an w h c) = (X, Y, d, 1)"
    using invert_apply [OF inv, of "(X, Y, d, 1)"] u by simp
  moreover have "transformMat4 (u0, u1, u2, u3) (pixel_matrix fv pt an w h c) =
      (w / 2 * (r1 * (1 / tan (fv / 2) / (w / h)) + - e3),
       - h / 2 * (- 1 * e2 * (1 / tan (fv / 2)) - - e3),
       e3 * ((far + 1) * (1 / (1 - far))) + u3 * (2 * far * 1 * (1 / (1 - far))), - e3)"
    by (simp only: pixel_apply Let_def far e3_def e2_def r1_def r2_def x'_def y'_def ctc_def)
  ultimately have "(w / 2 * (r1 * (1 / tan (fv / 2) / (w / h)) + - e3),
       - h / 2 * (- 1 * e2 * (1 / tan (fv / 2)) - - e3),
       e3 * ((far + 1) * (1 / (1 - far))) + u3 * (2 * far * 1 * (1 / (1 - far))), - e3)
     = (X, Y, d, 1)"
    by (simp only:)
  then have eqs: "- h / 2 * (- 1 * e2 * (1 / tan (fv / 2)) - - e3) = Y"
    "e3 * ((far + 1) * (1 / (1 - far))) + u3 * (2 * far * 1 * (1 / (1 - far))) = d"
    "- e3 = 1"
    by blast+
  from eqs(3) have e3: "e3 = - 1" by simp
  from nz have nf: "1 - far \<noteq> 0" by simp
  define k where "k = 1 / (1 - far)"
  from eqs(2) e3 have "(u3 * (2 * far) - (far + 1)) * k = d"
    unfolding k_def [symmetric] by (simp add: algebra_simps)
  then have "(u3 * (2 * far) - (far + 1)) / (1 - far) = d"
    unfolding k_def by simp
  then have "u3 * (2 * far) - (far + 1) = d * (1 - far)"
    using nonzero_divide_eq_eq [OF nf] by blast
  then show u3: "u3 = (d * (1 - far) + (far + 1)) / (2 * far)"
    using nz by (simp add: field_simps)
  from eqs(1) e3 have "h * (e2 / tan (fv / 2) + 1) / 2 = Y"
    by (simp add: algebra_simps)
  then have "e2 / tan (fv / 2) + 1 = 2 * Y / h"
    using nz(1) by (simp add: field_simps)
  then have "e2 / tan (fv / 2) = 2 * Y / h - 1"
    by simp
  then have e2: "e2 = (2 * Y / h - 1) * tan (fv / 2)"
    using nonzero_divide_eq_eq [OF nz(2)] by blast
  have "cos pt * (e3 + ctc * u3) - sin pt * e2 = (cos pt * cos pt + sin pt * sin pt) * u2"
    unfolding e3_def e2_def by (rule rotation_cancel)
  then have "u2 = cos pt * (e3 + ctc * u3) - sin pt * e2"
    by (simp only: cos_sin_square mult_1)
  then show "u2 = cos pt * (0.5 / tan (fv / 2) * h) * u3
              - (cos pt - sin pt * (1 - 2 * Y / h) * tan (fv / 2))"
    unfolding e3 e2 ctc_def by (simp add: algebra_simps)
qed




lemma ray_depths_differ:
  fixes D K w0 w1 :: real
  assumes "w0 \<noteq> 0" "w1 \<noteq> 0" "w0 \<noteq> w1" "K \<noteq> 0"
  shows "(D * w0 - K) / w0 \<noteq> (D * w1 - K) / w1"
proof
  assume "(D * w0 - K) / w0 = (D * w1 - K) / w1"
  then have "(D * w0 - K) * w1 = (D * w1 - K) * w0"
    using assms(1,2) by (simp add: frac_eq_eq)
  then have "K * (w0 - w1) = 0"
    by (simp add: algebra_simps)
  with assms show False by simp
qed

lemma ground_weight:
  fixes D K w0 w1 :: real
  assumes nz: "w0 \<noteq> 0" "w1 \<noteq> 0" "w0 \<noteq> w1" "K \<noteq> 0"
  defines "z0 \<equiv> (D * w0 - K) / w0" and "z1 \<equiv> (D * w1 - K) / w1"
  defines "t \<equiv> (0 - z0) / (z1 - z0)"
  shows "(1 - t) / w0 + t / w1 = D / K"
proof -
  have d: "z1 - z0 \<noteq> 0"
    using ray_depths_differ [OF nz, of D] by (simp add: z0_def z1_def)
  have zd: "z1 - z0 = K * (w1 - w0) / (w0 * w1)"
    using nz by (simp add: z0_def z1_def field_simps)
  have t: "t * (z1 - z0) = - z0"
    using d by (simp add: t_def)
  have "((1 - t) / w0 + t / w1) * K = (K + t * (K * (w0 - w1) / w1)) / w0"
    using nz by (simp add: field_simps)
  also have "K * (w0 - w1) / w1 = - (z1 - z0) * w0"
    using nz by (simp add: zd field_simps)
  also have "K + t * (- (z1 - z0) * w0) = K + z0 * w0"
    using t by algebra
  also have "K + z0 * w0 = D * w0"
    using nz by (simp add: z0_def)
  finally have "((1 - t) / w0 + t / w1) * K = D"
    using nz by simp
  then show ?thesis
    using nz by (simp add: field_simps)
qed

lemma ground_hit:
  fixes z0 z1 :: real
  assumes "z0 \<noteq> z1"
  shows "(1 - (0 - z0) / (z1 - z0)) * z0 + (0 - z0) / (z1 - z0) * z1 = 0"
  using assms by (simp add: field_simps)




lemma roundtrip_core:
  assumes pmx: "pixelMatrix s = Some pm" and pmi: "pixelMatrixInverse s = Some mi"
    and inv: "invert pm = Some mi"
    and a: "transformMat4 (px p, py p, 0, 1) mi = (a0, a1, D * w0 - K, w0)"
    and b: "transformMat4 (px p, py p, 1, 1) mi = (b0, b1, D * w1 - K, w1)"
    and nz: "w0 \<noteq> 0" "w1 \<noteq> 0" "w0 \<noteq> w1" "K \<noteq> 0"
    and D: "D \<noteq> 0"
  shows "pointToContainerPoint s (containerPointToPoint s p None) None = p"
proof -
  define z0 where "z0 = (D * w0 - K) / w0"
  define z1 where "z1 = (D * w1 - K) / w1"
  define t where "t = (0 - z0) / (z1 - z0)"
  define q where "q = Point (interpolate (a0 / w0) (b0 / w1) t) (interpolate (a1 / w0) (b1 / w1) t)"
  define k0 where "k0 = (1 - t) / w0"
  define k1 where "k1 = t / w1"
  have ne: "z0 \<noteq> z1"
    unfolding z0_def z1_def by (rule ray_depths_differ [OF nz])
  have bwd: "containerPointToPoint s p None = q"
    using ne
    by (simp add: containerPointToPoint_def pmi a b Let_def q_def t_def z0_def z1_def
          del: transformMat4.simps)
  have sum: "k0 + k1 = D / K"
    unfolding k0_def k1_def t_def z0_def z1_def by (rule ground_weight [OF nz])
  then have s0: "k0 + k1 \<noteq> 0"
    using D nz by simp
  have "k0 * (D * w0 - K) + k1 * (D * w1 - K) = (1 - t) * z0 + t * z1"
    using nz by (simp add: k0_def k1_def z0_def z1_def)
  also have "\<dots> = 0"
    unfolding t_def by (rule ground_hit [OF ne])
  finally have zz: "k0 * (D * w0 - K) + k1 * (D * w1 - K) = 0" .
  have ww: "k0 * w0 + k1 * w1 = 1"
    using nz by (simp add: k0_def k1_def)
  have xq: "px q = k0 * a0 + k1 * b0" and yq: "py q = k0 * a1 + k1 * b1"
    by (simp_all add: q_def interpolate_def k0_def k1_def mult.commute)
  have "(px q, py q, 0, 1) =
      vadd (smul k0 (a0, a1, D * w0 - K, w0)) (smul k1 (b0, b1, D * w1 - K, w1))"
    by (simp add: xq yq zz ww)
  then have "transformMat4 (px q, py q, 0, 1) pm =
      vadd (smul k0 (transformMat4 (transformMat4 (px p, py p, 0, 1) mi) pm))
           (smul k1 (transformMat4 (transformMat4 (px p, py p, 1, 1) mi) pm))"
    by (simp only: transformMat4_vadd transformMat4_smul a b)
  then have fw: "transformMat4 (px q, py q, 0, 1) pm =
      ((k0 + k1) * px p, (k0 + k1) * py p, k1, k0 + k1)"
    by (simp add: invert_apply [OF inv] algebra_simps del: transformMat4.simps)
  have "pointToContainerPoint s q None = Point (px p) (py p)"
    using s0 by (simp add: pointToContainerPoint_def pointToPoint_def pmx fw
        del: transformMat4.simps)
  then show ?thesis
    by (simp add: bwd)
qed




lemma cos_sum_positive:
  fixes pt hf :: real
  assumes "0 \<le> pt" "0 < hf" "pt + hf < pi / 2"
  shows "0 < cos (pt + hf)"
  using assms by (intro cos_gt_zero) auto

lemma farZ_positive:
  fixes fv pt ctc :: real
  assumes "0 < fv" "0 \<le> pt" "pt + fv / 2 < pi / 2" "0 < ctc"
  shows "ctc < farZ fv pt ctc"
proof -
  have c: "0 < cos (pt + fv / 2)"
    using assms by (intro cos_sum_positive) auto
  have "pi - (pi / 2 + pt) - fv / 2 = pi / 2 - (pt + fv / 2)"
    by simp
  then have s: "sin (pi - (pi / 2 + pt) - fv / 2) = cos (pt + fv / 2)"
    by (simp only: sin_cos_eq [symmetric] cos_sin_eq [symmetric]) (simp add: cos_sin_eq)
  have sp: "0 \<le> sin pt"
    using assms pi_gt_zero by (intro sin_ge_zero) auto
  have sh: "0 < sin (fv / 2)"
    using assms by (intro sin_gt_zero) auto
  have cp: "cos (pi / 2 - pt) = sin pt"
    by (simp add: sin_cos_eq)
  define X where "X = sin pt * (sin (fv / 2) * ctc / cos (pt + fv / 2))"
  have "0 \<le> X"
    unfolding X_def using sp sh c assms(4) by simp
  with assms(4) have "0 < X + ctc"
    by simp
  then have "X + ctc < (X + ctc) * 1.01"
    by simp
  with \<open>0 \<le> X\<close> have "ctc < (X + ctc) * 1.01"
    by linarith
  then show ?thesis
    unfolding farZ_def topHalfSurfaceDistance_def Let_def s cp X_def .
qed

lemma ground_factor_positive:
  fixes pt hf n :: real
  assumes "0 \<le> pt" "0 < hf" "pt + hf < pi / 2" "n \<le> 1"
  shows "0 < cos pt - sin pt * n * tan hf"
proof -
  have c: "0 < cos (pt + hf)"
    using assms by (intro cos_sum_positive) auto
  have ch: "0 < cos hf"
    using assms by (intro cos_gt_zero) auto
  have sp: "0 \<le> sin pt"
    using assms pi_gt_zero by (intro sin_ge_zero) auto
  have th: "0 < tan hf"
    using assms by (intro tan_gt_zero) auto
  have "cos (pt + hf) = (cos pt - sin pt * tan hf) * cos hf"
    using ch by (simp add: cos_add tan_def field_simps)
  with c ch have 1: "0 < cos pt - sin pt * tan hf"
    by (simp add: zero_less_mult_iff)
  have "sin pt * tan hf * n \<le> sin pt * tan hf * 1"
    using sp th assms(4) by (intro mult_left_mono) auto
  with 1 show ?thesis
    by (simp add: mult.assoc mult.left_commute mult.commute)
qed

lemma calcMatrices_frame:
  "height (snd (calcMatrices s)) = height s \<and> width (snd (calcMatrices s)) = width s
   \<and> centerPoint (snd (calcMatrices s)) = centerPoint s
   \<and> resolution (snd (calcMatrices s)) = resolution s
   \<and> zooming (snd (calcMatrices s)) = zooming s \<and> ie9 (snd (calcMatrices s)) = ie9 s
   \<and> maxZoom (snd (calcMatrices s)) = maxZoom s \<and> trace (snd (calcMatrices s)) = trace s"
proof (cases "falsy (height s)")
  case True
  then show ?thesis
    by (simp add: calcMatrices_def)
next
  case False
  then obtain h where h: "height s = Some h" "h \<noteq> 0"
    by (cases "height s") (auto simp: falsy_def)
  show ?thesis
  proof (cases "effective 0 (pitch s) = 0 \<and> effective 0 (angle s) = 0")
    case True
    then show ?thesis
      by (simp add: calcMatrices_flat [OF h] clearMatrices_def)
  next
    case False
    then have "effective 0 (pitch s) \<noteq> 0 \<or> effective 0 (angle s) \<noteq> 0"
      by simp
    then show ?thesis
      by (simp add: calcMatrices_tilted [OF h] Let_def split: option.splits)
  qed
qed

lemma default_fov_bounds: "0 < DEFAULT_FOV" "DEFAULT_FOV < 1"
  by (simp_all add: DEFAULT_FOV_def)

lemma tan_half_fov:
  fixes fv :: real
  assumes "0 < fv" "fv < pi / 2"
  shows "0 < tan (fv / 2)" "tan (fv / 2) < 1"
proof -
  show "0 < tan (fv / 2)"
    using assms by (intro tan_gt_zero) auto
  have "tan (fv / 2) < tan (pi / 4)"
    using assms by (intro tan_monotone) auto
  then show "tan (fv / 2) < 1"
    by (simp add: tan_45)
qed

lemma farZ_beyond_near:
  fixes fv pt h :: real
  assumes "0 < fv" "fv < pi / 2" "0 \<le> pt" "pt + fv / 2 < pi / 2" "2 \<le> h"
  shows "1 < farZ fv pt (0.5 / tan (fv / 2) * h)"
proof -
  note t = tan_half_fov [OF assms(1,2)]
  have "h / 2 \<le> h / 2 / tan (fv / 2)"
    using t assms(5) by (simp add: field_simps)
  then have c: "1 \<le> 0.5 / tan (fv / 2) * h"
    using assms(5) by simp
  then have "0.5 / tan (fv / 2) * h < farZ fv pt (0.5 / tan (fv / 2) * h)"
    using assms by (intro farZ_positive) auto
  with c show ?thesis
    by linarith
qed

lemma calcMatrices_builds:
  assumes h: "height s = Some h" "0 < h" and w: "0 < width s"
    and eff: "fv = effective DEFAULT_FOV (fov s)" "pt = effective 0 (pitch s)"
      "an = effective 0 (angle s)"
    and tilted: "pt \<noteq> 0 \<or> an \<noteq> 0"
    and dom: "0 < fv" "0 \<le> pt" "pt + fv / 2 < pi / 2"
    and far: "farZ fv pt (0.5 / tan (fv / 2) * h) \<noteq> 1"
  shows "\<exists>mi. invert (pixel_matrix fv pt an (width s) h (centerPoint s None)) = Some mi
    \<and> calcMatrices s =
       (Inr (), s\<lparr>fov := Some fv, pitch := Some pt, angle := Some an,
                 cameraToCenterDistance := Some (0.5 / tan (fv / 2) * h),
                 projMatrix := Some (translate (camera_basis fv pt an (width s) h)
                     (- px (centerPoint s None), - py (centerPoint s None), 0)),
                 pixelMatrix := Some (pixel_matrix fv pt an (width s) h (centerPoint s None)),
                 pixelMatrixInverse := Some mi,
                 cameraMatrix := Some (multiply (scale create (width s / 2, - h / 2, 1))
                    (camera_basis fv pt an (width s) h))\<rparr>)"
proof -
  have hn: "h \<noteq> 0" and wn: "width s \<noteq> 0"
    using h w by simp_all
  have th: "0 < tan (fv / 2)"
    using dom by (intro tan_gt_zero) auto
  then have ctc: "0 < 0.5 / tan (fv / 2) * h"
    using h by simp
  have "0.5 / tan (fv / 2) * h < farZ fv pt (0.5 / tan (fv / 2) * h)"
    using dom ctc by (rule farZ_positive)
  with ctc have f0: "farZ fv pt (0.5 / tan (fv / 2) * h) \<noteq> 0"
    by simp
  from th have tn: "tan (fv / 2) \<noteq> 0"
    by simp
  obtain mi where mi: "invert (pixel_matrix fv pt an (width s) h (centerPoint s None)) = Some mi"
    using invert_pixel_matrix [OF wn hn tn f0 far] by blast
  have t': "effective 0 (pitch s) \<noteq> 0 \<or> effective 0 (angle s) \<noteq> 0"
    using tilted eff by simp
  show ?thesis
    using mi calcMatrices_tilted [OF h(1) hn t']
    by (simp add: Let_def eff [symmetric])
qed

lemma pi_sixth_bounds: "0 < pi / 6" "pi / 6 + DEFAULT_FOV / 2 < pi / 2" "DEFAULT_FOV < pi / 2"
  using pi_ge_two by (simp_all add: DEFAULT_FOV_def)

section \<open>Round trip of the two projectors\<close>

text \<open>
  The round trip of C1 over the reals. Let \<open>s'\<close> be the map after the matrix builder
  has run, with a viewport of positive size, a field of view \<open>fv > 0\<close>, a pitch
  \<open>pt \<ge> 0\<close> with \<open>pt + fv / 2\<close> below a right angle, pitch and bearing not both zero,
  and a far plane that differs from the near plane at distance 1. These are the states in
  which no divisor of the builder is zero. Then the builder has not raised, and for every
  pixel \<open>p\<close> strictly inside the viewport the forward projection of the backward
  projection of \<open>p\<close> is \<open>p\<close>, exactly.

  This says nothing about the program's doubles. At pitch 60 degrees with a field of view
  of 60 degrees the divisor \<open>sin (pi - groundAngle - halfFov)\<close> of the builder is zero
  over the reals, while in doubles it is a rounding residue, so the far plane of this
  model and that of the program differ there; and the tolerance of a round trip in
  doubles depends on the rounding of every operation, which real numbers do not have.
\<close>

theorem calcMatrices_roundtrip:
  assumes run: "calcMatrices s = (r, s')"
    and st: "height s' = Some h" "fov s' = Some fv" "pitch s' = Some pt" "angle s' = Some an"
    and tilted: "pt \<noteq> 0 \<or> an \<noteq> 0"
    and vp: "0 < width s'" "0 < h"
    and dom: "0 < fv" "0 \<le> pt" "pt + fv / 2 < pi / 2"
    and far: "farZ fv pt (0.5 / tan (fv / 2) * h) \<noteq> 1"
    and inside: "0 < px p" "px p < width s'" "0 < py p" "py p < h"
  shows "r = Inr () \<and> pointToContainerPoint s' (containerPointToPoint s' p None) None = p"
proof -
  define ctc where "ctc = 0.5 / tan (fv / 2) * h"
  define fz where "fz = farZ fv pt ctc"
  define pm where "pm = pixel_matrix fv pt an (width s) h (centerPoint s None)"
  from run have s': "s' = snd (calcMatrices s)" and r: "r = fst (calcMatrices s)"
    by simp_all
  have h: "height s = Some h" "h \<noteq> 0"
    using st(1) vp(2) calcMatrices_frame [of s] by (simp_all add: s')
  have w: "width s = width s'"
    using calcMatrices_frame [of s] by (simp add: s')
  have nonflat: "effective 0 (pitch s) \<noteq> 0 \<or> effective 0 (angle s) \<noteq> 0"
  proof (rule ccontr)
    assume "\<not> ?thesis"
    then have "calcMatrices s = (Inr (), clearMatrices (s\<lparr>fov := Some (effective DEFAULT_FOV (fov s)),
        pitch := Some 0, angle := Some 0\<rparr>))"
      using calcMatrices_flat [OF h] by simp
    with st(3,4) tilted show False
      by (simp add: s' clearMatrices_def)
  qed
  note run' = calcMatrices_tilted [OF h nonflat]
  have eff: "effective DEFAULT_FOV (fov s) = fv" "effective 0 (pitch s) = pt"
    "effective 0 (angle s) = an"
    using st(2,3,4) unfolding s' run' by (simp_all add: Let_def split: option.splits)
  have th: "0 < tan (fv / 2)"
    using dom by (intro tan_gt_zero) auto
  have ctc: "0 < ctc"
    unfolding ctc_def using th vp(2) by simp
  have fz: "ctc < fz"
    unfolding fz_def using dom ctc by (rule farZ_positive)
  have fz1: "fz \<noteq> 1"
    using far by (simp add: fz_def ctc_def)
  have fzd: "fz = farZ fv pt (0.5 / tan (fv / 2) * h)"
    by (simp add: fz_def ctc_def)
  have nz: "h \<noteq> 0" "tan (fv / 2) \<noteq> 0" "fz \<noteq> 0" "fz \<noteq> 1"
    using vp th fz ctc fz1 by auto
  have wnz: "width s \<noteq> 0"
    using vp w by simp
  have "\<exists>mi. invert pm = Some mi"
    unfolding pm_def
    by (rule invert_pixel_matrix [OF wnz nz(1,2) nz(3,4) [unfolded fzd]])
  then obtain mi where mi: "invert pm = Some mi" ..
  have res: "r = Inr ()" "pixelMatrix s' = Some pm" "pixelMatrixInverse s' = Some mi"
    unfolding r s' run' using mi by (simp_all add: Let_def eff pm_def [symmetric])
  obtain a0 a1 a2 a3 where a: "transformMat4 (px p, py p, 0, 1) mi = (a0, a1, a2, a3)"
    by (cases "transformMat4 (px p, py p, 0, 1) mi") auto
  obtain b0 b1 b2 b3 where b: "transformMat4 (px p, py p, 1, 1) mi = (b0, b1, b2, b3)"
    by (cases "transformMat4 (px p, py p, 1, 1) mi") auto
  define K where "K = cos pt - sin pt * (1 - 2 * py p / h) * tan (fv / 2)"
  define D where "D = cos pt * ctc"
  note ua = unproject_components [OF mi [unfolded pm_def] a nz fzd]
  note ub = unproject_components [OF mi [unfolded pm_def] b nz fzd]
  have a3: "a3 = (fz + 1) / (2 * fz)" and b3: "b3 = 1 / fz"
    using ua(1) ub(1) nz by (simp_all add: field_simps)
  have a2: "a2 = D * a3 - K" and b2: "b2 = D * b3 - K"
    using ua(2) ub(2) by (simp_all add: D_def K_def ctc_def)
  have fpos: "0 < fz"
    using fz ctc by simp
  have w0: "a3 \<noteq> 0" and w1: "b3 \<noteq> 0"
    using fpos by (simp_all add: a3 b3)
  have w01: "a3 \<noteq> b3"
    using fpos fz1 by (simp add: a3 b3 field_simps)
  have "1 - 2 * py p / h \<le> 1"
    using inside vp by simp
  then have "0 < K"
    unfolding K_def using dom by (intro ground_factor_positive) auto
  then have K: "K \<noteq> 0"
    by simp
  have "0 < cos pt"
    using dom by (intro cos_gt_zero_pi) auto
  then have D: "D \<noteq> 0"
    using ctc by (simp add: D_def)
  have "pointToContainerPoint s' (containerPointToPoint s' p None) None = p"
    using res(2,3) mi a [unfolded a2] b [unfolded b2] w0 w1 w01 K D
    by (rule roundtrip_core)
  with res(1) show ?thesis
    by simp
qed

theorem calcMatrices_roundtrip_witness:
  "fst (calcMatrices (fresh_map\<lparr>pitch := Some (pi / 6)\<rparr>)) = Inr ()
   \<and> pointToContainerPoint (snd (calcMatrices (fresh_map\<lparr>pitch := Some (pi / 6)\<rparr>)))
        (containerPointToPoint (snd (calcMatrices (fresh_map\<lparr>pitch := Some (pi / 6)\<rparr>)))
           (Point 100 200) None) None = Point 100 200"
proof -
  define s where "s = fresh_map\<lparr>pitch := Some (pi / 6)\<rparr>"
  have h: "height s = Some 600" and w: "width s = 800"
    by (simp_all add: s_def fresh_map_def)
  have eff: "DEFAULT_FOV = effective DEFAULT_FOV (fov s)" "pi / 6 = effective 0 (pitch s)"
    "0 = effective 0 (angle s)"
    by (simp_all add: s_def fresh_map_def effective_def falsy_def)
  have far: "farZ DEFAULT_FOV (pi / 6) (0.5 / tan (DEFAULT_FOV / 2) * 600) \<noteq> 1"
    using farZ_beyond_near [of DEFAULT_FOV "pi / 6" 600] default_fov_bounds pi_sixth_bounds
    by simp
  obtain mi where run: "calcMatrices s =
       (Inr (), s\<lparr>fov := Some DEFAULT_FOV, pitch := Some (pi / 6), angle := Some 0,
                 cameraToCenterDistance := Some (0.5 / tan (DEFAULT_FOV / 2) * 600),
                 projMatrix := Some (translate (camera_basis DEFAULT_FOV (pi / 6) 0 (width s) 600)
                     (- px (centerPoint s None), - py (centerPoint s None), 0)),
                 pixelMatrix := Some (pixel_matrix DEFAULT_FOV (pi / 6) 0 (width s) 600 (centerPoint s None)),
                 pixelMatrixInverse := Some mi,
                 cameraMatrix := Some (multiply (scale create (width s / 2, - 600 / 2, 1))
                    (camera_basis DEFAULT_FOV (pi / 6) 0 (width s) 600))\<rparr>)"
    using calcMatrices_builds [OF h _ _ eff _ default_fov_bounds(1) _ pi_sixth_bounds(2) far]
      pi_sixth_bounds(1) w
    by auto
  have "fst (calcMatrices s) = Inr ()
     \<and> pointToContainerPoint (snd (calcMatrices s))
          (containerPointToPoint (snd (calcMatrices s)) (Point 100 200) None) None = Point 100 200"
    using calcMatrices_roundtrip [of s "fst (calcMatrices s)" "snd (calcMatrices s)" 600
        DEFAULT_FOV "pi / 6" 0 "Point 100 200"]
      default_fov_bounds pi_sixth_bounds far h
    by (simp add: run w)
  then show ?thesis
    by (simp add: s_def)
qed




section \<open>The setters on the example map\<close>

lemma radian_30: "30 * RADIAN = pi / 6" "clamp 30 0 60 = 30"
  by (simp_all add: RADIAN_def clamp_def)

lemma fresh_map_fields:
  "height fresh_map = Some 600" "width fresh_map = 800" "fov fresh_map = None"
  "pitch fresh_map = None" "angle fresh_map = None" "\<not> zooming fresh_map" "\<not> ie9 fresh_map"
  "centerPoint fresh_map = (\<lambda>z. Point 0 0)" "trace fresh_map = []"
  "pixelMatrix fresh_map = None" "pixelMatrixInverse fresh_map = None"
  "projMatrix fresh_map = None" "cameraMatrix fresh_map = None"
  by (simp_all add: fresh_map_def)

lemma setPitch_30:
  "\<exists>mi. invert (pixel_matrix DEFAULT_FOV (pi / 6) 0 800 600 (Point 0 0)) = Some mi \<and>
     setPitch 30 fresh_map =
       (Inr (), fresh_map\<lparr>fov := Some DEFAULT_FOV, pitch := Some (pi / 6), angle := Some 0,
          cameraToCenterDistance := Some (0.5 / tan (DEFAULT_FOV / 2) * 600),
          projMatrix := Some (translate (camera_basis DEFAULT_FOV (pi / 6) 0 800 600) (- 0, - 0, 0)),
          pixelMatrix := Some (pixel_matrix DEFAULT_FOV (pi / 6) 0 800 600 (Point 0 0)),
          pixelMatrixInverse := Some mi,
          cameraMatrix := Some (multiply (scale create (800 / 2, - 600 / 2, 1))
             (camera_basis DEFAULT_FOV (pi / 6) 0 800 600)),
          trace := [FireEvent ''pitch'' 0 (pi / 6), RenderLayers, CalcMatrices]\<rparr>)"
proof -
  define s where "s = record_action CalcMatrices (fresh_map\<lparr>pitch := Some (pi / 6)\<rparr>)"
  have h: "height s = Some 600" and w: "width s = 800" and c: "centerPoint s None = Point 0 0"
    by (simp_all add: s_def fresh_map_def record_action_def)
  have eff: "DEFAULT_FOV = effective DEFAULT_FOV (fov s)" "pi / 6 = effective 0 (pitch s)"
    "0 = effective 0 (angle s)"
    by (simp_all add: s_def fresh_map_def effective_def falsy_def record_action_def)
  have far: "farZ DEFAULT_FOV (pi / 6) (0.5 / tan (DEFAULT_FOV / 2) * 600) \<noteq> 1"
    using farZ_beyond_near [of DEFAULT_FOV "pi / 6" 600] default_fov_bounds pi_sixth_bounds
    by simp
  obtain mi where mi: "invert (pixel_matrix DEFAULT_FOV (pi / 6) 0 (width s) 600 (centerPoint s None)) = Some mi"
    and run: "calcMatrices s =
       (Inr (), s\<lparr>fov := Some DEFAULT_FOV, pitch := Some (pi / 6), angle := Some 0,
                 cameraToCenterDistance := Some (0.5 / tan (DEFAULT_FOV / 2) * 600),
                 projMatrix := Some (translate (camera_basis DEFAULT_FOV (pi / 6) 0 (width s) 600)
                     (- px (centerPoint s None), - py (centerPoint s None), 0)),
                 pixelMatrix := Some (pixel_matrix DEFAULT_FOV (pi / 6) 0 (width s) 600 (centerPoint s None)),
                 pixelMatrixInverse := Some mi,
                 cameraMatrix := Some (multiply (scale create (width s / 2, - 600 / 2, 1))
                    (camera_basis DEFAULT_FOV (pi / 6) 0 (width s) 600))\<rparr>)"
    using calcMatrices_builds [OF h _ _ eff _ default_fov_bounds(1) _ pi_sixth_bounds(2) far]
      pi_sixth_bounds(1) w
    by auto
  have "setPitch 30 fresh_map =
      (case calcMatrices s of
         (Inl e, s2) \<Rightarrow> (Inl e, s2)
       | (Inr u, s2) \<Rightarrow> (Inr (), record_action (FireEvent ''pitch'' 0 (pi / 6)) (renderLayers s2)))"
    by (simp add: setPitch_def fresh_map_fields radian_30 getPitch_def falsy_def s_def Let_def)
  then have "setPitch 30 fresh_map =
       (Inr (), fresh_map\<lparr>fov := Some DEFAULT_FOV, pitch := Some (pi / 6), angle := Some 0,
          cameraToCenterDistance := Some (0.5 / tan (DEFAULT_FOV / 2) * 600),
          projMatrix := Some (translate (camera_basis DEFAULT_FOV (pi / 6) 0 800 600) (- 0, - 0, 0)),
          pixelMatrix := Some (pixel_matrix DEFAULT_FOV (pi / 6) 0 800 600 (Point 0 0)),
          pixelMatrixInverse := Some mi,
          cameraMatrix := Some (multiply (scale create (800 / 2, - 600 / 2, 1))
             (camera_basis DEFAULT_FOV (pi / 6) 0 800 600)),
          trace := [FireEvent ''pitch'' 0 (pi / 6), RenderLayers, CalcMatrices]\<rparr>)"
    unfolding run
    by (simp add: w c s_def record_action_def renderLayers_def fresh_map_def)
  with mi w c show ?thesis
    by (intro exI [of _ mi]) simp
qed




lemma scenario_pixelMatrix:
  "pixelMatrix (snd (setPitch 30 fresh_map)) =
     Some (pixel_matrix DEFAULT_FOV (pi / 6) 0 800 600 (Point 0 0))"
  using setPitch_30 by auto

lemma scenario_transform:
  "transformMat4 (0, y, 0, 1) (pixel_matrix DEFAULT_FOV (pi / 6) 0 800 600 (Point 0 0)) =
     (400 * (300 / tan (DEFAULT_FOV / 2) - y / 2),
      300 * (sqrt 3 / 2 * y / tan (DEFAULT_FOV / 2) + (300 / tan (DEFAULT_FOV / 2) - y / 2)),
      (y / 2 - 300 / tan (DEFAULT_FOV / 2)) *
        ((farZ DEFAULT_FOV (pi / 6) (300 / tan (DEFAULT_FOV / 2)) + 1) *
         (1 / (1 - farZ DEFAULT_FOV (pi / 6) (300 / tan (DEFAULT_FOV / 2))))) +
        2 * farZ DEFAULT_FOV (pi / 6) (300 / tan (DEFAULT_FOV / 2)) *
         (1 / (1 - farZ DEFAULT_FOV (pi / 6) (300 / tan (DEFAULT_FOV / 2)))),
      300 / tan (DEFAULT_FOV / 2) - y / 2)"
  by (simp add: pixel_apply Let_def sin_30 cos_30 algebra_simps)

lemma scenario_forward:
  assumes "y \<le> 100"
  shows "pointToContainerPoint (snd (setPitch 30 fresh_map)) (Point 0 y) None =
     Point 400 (300 + 300 * (sqrt 3 / 2 * y / tan (DEFAULT_FOV / 2)) /
                   (300 / tan (DEFAULT_FOV / 2) - y / 2))"
proof -
  have t: "0 < tan (DEFAULT_FOV / 2)" "tan (DEFAULT_FOV / 2) < 1"
    using tan_half_fov [of DEFAULT_FOV] default_fov_bounds pi_sixth_bounds by simp_all
  then have "300 < 300 / tan (DEFAULT_FOV / 2)"
    by (simp add: field_simps)
  with assms have w: "0 < 300 / tan (DEFAULT_FOV / 2) - y / 2"
    by simp
  define W where "W = 300 / tan (DEFAULT_FOV / 2) - y / 2"
  define A where "A = sqrt 3 / 2 * y / tan (DEFAULT_FOV / 2)"
  have W: "W \<noteq> 0"
    using w by (simp add: W_def)
  have "pointToContainerPoint (snd (setPitch 30 fresh_map)) (Point 0 y) None =
      Point (400 * W / W) (300 * (A + W) / W)"
    by (simp add: pointToContainerPoint_def pointToPoint_def scenario_pixelMatrix
          scenario_transform W_def A_def del: transformMat4.simps)
  also have "400 * W / W = 400"
    using W by simp
  also have "300 * (A + W) / W = 300 + 300 * A / W"
    using W by (simp add: field_simps)
  finally show ?thesis
    by (simp add: W_def A_def)
qed

lemma scenario_offset_sign:
  assumes "y \<le> 100"
  shows "0 < y \<Longrightarrow> 0 < 300 * (sqrt 3 / 2 * y / tan (DEFAULT_FOV / 2)) /
                   (300 / tan (DEFAULT_FOV / 2) - y / 2)"
    and "y < 0 \<Longrightarrow> 300 * (sqrt 3 / 2 * y / tan (DEFAULT_FOV / 2)) /
                   (300 / tan (DEFAULT_FOV / 2) - y / 2) < 0"
proof -
  have t: "0 < tan (DEFAULT_FOV / 2)" "tan (DEFAULT_FOV / 2) < 1"
    using tan_half_fov [of DEFAULT_FOV] default_fov_bounds pi_sixth_bounds by simp_all
  then have "300 < 300 / tan (DEFAULT_FOV / 2)"
    by (simp add: field_simps)
  with assms have w: "0 < 300 / tan (DEFAULT_FOV / 2) - y / 2"
    by simp
  show "0 < y \<Longrightarrow> 0 < 300 * (sqrt 3 / 2 * y / tan (DEFAULT_FOV / 2)) /
                   (300 / tan (DEFAULT_FOV / 2) - y / 2)"
    using t w by (simp add: zero_less_divide_iff)
  show "y < 0 \<Longrightarrow> 300 * (sqrt 3 / 2 * y / tan (DEFAULT_FOV / 2)) /
                   (300 / tan (DEFAULT_FOV / 2) - y / 2) < 0"
    using t w by (simp add: divide_less_0_iff mult_less_0_iff)
qed

text \<open>
  C7. Viewport 800 by 600, default fov, pitch 30 degrees, bearing 0, centre at the origin
  of map space. The map-space origin is projected to the container point (400, 300). The
  point (0, 100) is projected to a container point with x = 400 and y strictly greater
  than 300: map-space y grows downwards like container y, as the flat-mode path shows. It
  is the point (0, -100) whose projection has y below 300.
\<close>

theorem scenario_projection:
  "pointToContainerPoint (snd (setPitch 30 fresh_map)) (Point 0 0) None = Point 400 300
   \<and> px (pointToContainerPoint (snd (setPitch 30 fresh_map)) (Point 0 100) None) = 400
   \<and> 300 < py (pointToContainerPoint (snd (setPitch 30 fresh_map)) (Point 0 100) None)
   \<and> px (pointToContainerPoint (snd (setPitch 30 fresh_map)) (Point 0 (- 100)) None) = 400
   \<and> py (pointToContainerPoint (snd (setPitch 30 fresh_map)) (Point 0 (- 100)) None) < 300"
  using scenario_offset_sign(1) [of 100] scenario_offset_sign(2) [of "- 100"]
  by (simp add: scenario_forward)

text \<open>
  The projection of (0, 100) does not have a y-coordinate below 300.
\<close>

theorem scenario_projection_counterexample:
  "\<not> py (pointToContainerPoint (snd (setPitch 30 fresh_map)) (Point 0 100) None) < 300"
  using scenario_offset_sign(1) [of 100]
  by (simp add: scenario_forward)




lemma calcMatrices_camera:
  assumes "\<not> falsy (height s)"
  shows "fov (snd (calcMatrices s)) = Some (effective DEFAULT_FOV (fov s))
       \<and> pitch (snd (calcMatrices s)) = Some (effective 0 (pitch s))
       \<and> angle (snd (calcMatrices s)) = Some (effective 0 (angle s))"
proof -
  from assms obtain h where h: "height s = Some h" "h \<noteq> 0"
    by (cases "height s") (auto simp: falsy_def)
  show ?thesis
  proof (cases "effective 0 (pitch s) = 0 \<and> effective 0 (angle s) = 0")
    case True
    then show ?thesis
      by (simp add: calcMatrices_flat [OF h] clearMatrices_def)
  next
    case False
    then have "effective 0 (pitch s) \<noteq> 0 \<or> effective 0 (angle s) \<noteq> 0"
      by simp
    then show ?thesis
      by (simp add: calcMatrices_tilted [OF h] Let_def split: option.splits)
  qed
qed

lemma effective_Some: "effective 0 (Some v) = v"
  by (simp add: effective_def falsy_def)

lemma calcMatrices_no_height: "falsy (height s) \<Longrightarrow> calcMatrices s = (Inr (), s)"
  by (simp add: calcMatrices_def)

lemma calcMatrices_keeps_pitch:
  assumes "pitch s = Some p"
  shows "pitch (snd (calcMatrices s)) = Some p"
proof (cases "falsy (height s)")
  case True
  then show ?thesis
    using assms by (simp add: calcMatrices_no_height)
next
  case False
  then show ?thesis
    using assms by (simp add: calcMatrices_camera effective_Some)
qed

lemma calcMatrices_keeps_angle:
  assumes "angle s = Some a"
  shows "angle (snd (calcMatrices s)) = Some a"
proof (cases "falsy (height s)")
  case True
  then show ?thesis
    using assms by (simp add: calcMatrices_no_height)
next
  case False
  then show ?thesis
    using assms by (simp add: calcMatrices_camera effective_Some)
qed

lemma calcMatrices_keeps_fov:
  assumes "fov s = Some f" "f \<noteq> 0"
  shows "fov (snd (calcMatrices s)) = Some f"
proof (cases "falsy (height s)")
  case True
  then show ?thesis
    using assms by (simp add: calcMatrices_no_height)
next
  case False
  then show ?thesis
    using assms by (simp add: calcMatrices_camera effective_def falsy_def)
qed

lemma wrap_values: "wrap 0 (- 180) 180 = 0" "wrap 90 (- 180) 180 = 90" "wrap 270 (- 180) 180 = - 90"
  by (simp_all add: wrap_def Let_def)

lemma wrap_ends: "wrap 180 (- 180) 180 = 180" "wrap (- 180) (- 180) 180 = 180"
  "wrap 540 (- 180) 180 = 180"
  by (simp_all add: wrap_def Let_def)

lemma setBearing_90:
  "fst (setBearing 90 fresh_map) = Inr ()
   \<and> angle (snd (setBearing 90 fresh_map)) = Some (- (pi / 2))
   \<and> trace (snd (setBearing 90 fresh_map)) =
       [FireEvent ''rotate'' 0 (- (pi / 2)), RenderLayers, CalcMatrices]"
proof -
  define s where "s = record_action CalcMatrices (fresh_map\<lparr>angle := Some (- (pi / 2))\<rparr>)"
  have h: "height s = Some 600" and w: "0 < width s"
    by (simp_all add: s_def fresh_map_def record_action_def)
  have eff: "DEFAULT_FOV = effective DEFAULT_FOV (fov s)" "0 = effective 0 (pitch s)"
    "- (pi / 2) = effective 0 (angle s)"
    by (simp_all add: s_def fresh_map_def effective_def falsy_def record_action_def)
  have far: "farZ DEFAULT_FOV 0 (0.5 / tan (DEFAULT_FOV / 2) * 600) \<noteq> 1"
    using farZ_beyond_near [of DEFAULT_FOV 0 600] default_fov_bounds pi_sixth_bounds
    by simp
  have dom: "0 + DEFAULT_FOV / 2 < pi / 2"
    using pi_sixth_bounds(3) default_fov_bounds(1) by simp
  have t: "(0::real) \<noteq> 0 \<or> - (pi / 2) \<noteq> 0"
    by simp
  obtain s' where run: "calcMatrices s = (Inr (), s')" and tr: "trace s' = trace s"
    and an: "angle s' = Some (- (pi / 2))"
    using calcMatrices_builds [OF h _ w eff t default_fov_bounds(1) _ dom far]
    by auto
  have "setBearing 90 fresh_map =
      (case calcMatrices s of
         (Inl e, s2) \<Rightarrow> (Inl e, s2)
       | (Inr u, s2) \<Rightarrow>
           (Inr (), record_action (FireEvent ''rotate'' 0 (- (pi / 2))) (renderLayers s2)))"
    by (simp add: setBearing_def fresh_map_fields wrap_values RADIAN_def getBearing_def
          falsy_def s_def Let_def)
  then show ?thesis
    unfolding run
    by (simp add: tr an s_def record_action_def renderLayers_def fresh_map_fields)
qed

text \<open>
  C6. On the map of 800 by 600 pixels, \<open>setBearing(90)\<close> fires \<open>rotate\<close> with
  \<open>from = 0\<close> in degrees and \<open>to\<close> equal to the internal angle \<open>- pi / 2\<close>, while
  \<open>getBearing()\<close> then answers 90; \<open>setPitch(30)\<close> fires \<open>pitch\<close> with \<open>to = pi / 6\<close>,
  while \<open>getPitch()\<close> then answers 30.
\<close>

theorem change_event_units:
  "trace (snd (setBearing 90 fresh_map)) =
       [FireEvent ''rotate'' 0 (- (pi / 2)), RenderLayers, CalcMatrices]
   \<and> getBearing (snd (setBearing 90 fresh_map)) = 90
   \<and> - (pi / 2) \<noteq> (90::real)
   \<and> trace (snd (setPitch 30 fresh_map)) =
       [FireEvent ''pitch'' 0 (pi / 6), RenderLayers, CalcMatrices]
   \<and> getPitch (snd (setPitch 30 fresh_map)) = 30
   \<and> pi / 6 \<noteq> (30::real)"
proof -
  have "- (pi / 2) < (90::real)"
    using pi_gt_zero by linarith
  moreover have "pi / 6 < (30::real)"
    using pi_less_4 by simp
  moreover obtain mi where "setPitch 30 fresh_map =
       (Inr (), fresh_map\<lparr>fov := Some DEFAULT_FOV, pitch := Some (pi / 6), angle := Some 0,
          cameraToCenterDistance := Some (0.5 / tan (DEFAULT_FOV / 2) * 600),
          projMatrix := Some (translate (camera_basis DEFAULT_FOV (pi / 6) 0 800 600) (- 0, - 0, 0)),
          pixelMatrix := Some (pixel_matrix DEFAULT_FOV (pi / 6) 0 800 600 (Point 0 0)),
          pixelMatrixInverse := Some mi,
          cameraMatrix := Some (multiply (scale create (800 / 2, - 600 / 2, 1))
             (camera_basis DEFAULT_FOV (pi / 6) 0 800 600)),
          trace := [FireEvent ''pitch'' 0 (pi / 6), RenderLayers, CalcMatrices]\<rparr>)"
    using setPitch_30 by blast
  ultimately show ?thesis
    using setBearing_90
    by (simp add: getBearing_def getPitch_def falsy_def RADIAN_def)
qed




lemma radian_not_one: "x * RADIAN = x \<longleftrightarrow> x = 0"
proof -
  have "RADIAN < 1"
    using pi_less_4 by (simp add: RADIAN_def)
  then have "RADIAN - 1 \<noteq> 0"
    by simp
  moreover have "x * RADIAN = x \<longleftrightarrow> x * (RADIAN - 1) = 0"
    by (simp add: algebra_simps)
  ultimately show ?thesis
    by simp
qed

lemma radian_nonzero: "RADIAN \<noteq> 0" "0 < RADIAN"
  by (simp_all add: RADIAN_def)

lemma setFov_flat:
  assumes "\<not> zooming s" "height s = Some h" "h \<noteq> 0"
    and "effective 0 (pitch s) = 0" "effective 0 (angle s) = 0"
    and "fov s \<noteq> Some (max 0.01 (min 60 v))"
  shows "setFov v s =
     (Inr (), clearMatrices (s\<lparr>fov := Some (max 0.01 (min 60 v) * RADIAN), pitch := Some 0,
         angle := Some 0,
         trace := FireEvent ''fovchange'' (effective DEFAULT_FOV (fov s) / RADIAN)
                    (max 0.01 (min 60 v)) # RenderLayers # CalcMatrices # trace s\<rparr>))"
proof -
  define f where "f = max 0.01 (min 60 v)"
  have fpos: "0 < f"
    by (simp add: f_def)
  define s2 where "s2 = record_action CalcMatrices (s\<lparr>fov := Some (f * RADIAN)\<rparr>)"
  have g: "getFov s = (effective DEFAULT_FOV (fov s) / RADIAN,
      s\<lparr>fov := Some (effective DEFAULT_FOV (fov s))\<rparr>)"
    by (cases "fov s") (auto simp: getFov_def Let_def effective_def falsy_def)
  have h2: "height s2 = Some h" and e2: "effective 0 (pitch s2) = 0" "effective 0 (angle s2) = 0"
    and f2: "effective DEFAULT_FOV (fov s2) = f * RADIAN"
    using assms fpos radian_nonzero
    by (simp_all add: s2_def record_action_def effective_def falsy_def)
  have run: "calcMatrices s2 = (Inr (), clearMatrices (s2\<lparr>fov := Some (f * RADIAN),
        pitch := Some 0, angle := Some 0\<rparr>))"
    using calcMatrices_flat [OF h2 assms(3) e2] by (simp add: f2)
  have "setFov v s =
      (case calcMatrices s2 of
         (Inl e, s3) \<Rightarrow> (Inl e, s3)
       | (Inr u, s3) \<Rightarrow>
           (let s4 = renderLayers s3; (to, s5) = getFov s4
            in (Inr (), record_action
                 (FireEvent ''fovchange'' (effective DEFAULT_FOV (fov s) / RADIAN) to) s5)))"
    using assms(1,6) by (simp add: setFov_def g f_def s2_def Let_def)
  then show ?thesis
    unfolding run using fpos radian_nonzero
    by (simp add: getFov_def renderLayers_def record_action_def clearMatrices_def falsy_def
          s2_def Let_def f_def)
qed

text \<open>
  C5. On the map of 800 by 600 pixels, two consecutive calls \<open>setFov(30)\<close> recompute the
  matrices twice, render twice and fire \<open>fovchange\<close> twice, the second time from 30 to 30:
  the stored radians are compared with the clamped value in degrees, so the second call is
  not recognised as a repetition.
\<close>

theorem setFov_twice:
  "trace (snd (setFov 30 (snd (setFov 30 fresh_map)))) =
     [FireEvent ''fovchange'' 30 30, RenderLayers, CalcMatrices,
      FireEvent ''fovchange'' (DEFAULT_FOV / RADIAN) 30, RenderLayers, CalcMatrices]"
proof -
  have 1: "setFov 30 fresh_map =
     (Inr (), clearMatrices (fresh_map\<lparr>fov := Some (30 * RADIAN), pitch := Some 0,
         angle := Some 0,
         trace := [FireEvent ''fovchange'' (DEFAULT_FOV / RADIAN) 30, RenderLayers,
                   CalcMatrices]\<rparr>))"
    using setFov_flat [of fresh_map 600 30]
    by (simp add: fresh_map_fields effective_def falsy_def)
  define s1 where "s1 = snd (setFov 30 fresh_map)"
  have s1: "\<not> zooming s1" "height s1 = Some 600" "effective 0 (pitch s1) = 0"
    "effective 0 (angle s1) = 0" "fov s1 = Some (30 * RADIAN)"
    "trace s1 = [FireEvent ''fovchange'' (DEFAULT_FOV / RADIAN) 30, RenderLayers, CalcMatrices]"
    unfolding s1_def 1
    by (simp_all add: clearMatrices_def fresh_map_fields effective_def falsy_def)
  have ne: "fov s1 \<noteq> Some (max 0.01 (min 60 30))"
    using radian_not_one [of 30] by (simp add: s1)
  have "effective DEFAULT_FOV (fov s1) / RADIAN = 30"
    using radian_nonzero by (simp add: s1 effective_def falsy_def)
  then show ?thesis
    using setFov_flat [OF s1(1,2) _ s1(3,4) ne]
    by (simp add: s1_def [symmetric] clearMatrices_def s1(6))
qed

lemma setBearing_post:
  assumes "\<not> ie9 s" "\<not> zooming s"
  shows "angle (snd (setBearing v s)) = Some (- (wrap v (- 180) 180 * RADIAN))
       \<and> \<not> ie9 (snd (setBearing v s)) \<and> \<not> zooming (snd (setBearing v s))"
proof (cases "angle s = Some (- (wrap v (- 180) 180 * RADIAN))")
  case True
  then show ?thesis
    using assms by (simp add: setBearing_def)
next
  case False
  define s1 where "s1 = record_action CalcMatrices (s\<lparr>angle := Some (- (wrap v (- 180) 180 * RADIAN))\<rparr>)"
  have a: "angle s1 = Some (- (wrap v (- 180) 180 * RADIAN))"
    by (simp add: s1_def record_action_def)
  obtain r s2 where c: "calcMatrices s1 = (r, s2)"
    by (cases "calcMatrices s1") auto
  have s2: "angle s2 = Some (- (wrap v (- 180) 180 * RADIAN))" "ie9 s2 = ie9 s" "zooming s2 = zooming s"
    using calcMatrices_keeps_angle [OF a] calcMatrices_frame [of s1] c
    by (simp_all add: s1_def record_action_def)
  have e: "setBearing v s =
      (case calcMatrices s1 of
         (Inl e, s2) \<Rightarrow> (Inl e, s2)
       | (Inr u, s2) \<Rightarrow>
           (Inr (), record_action (FireEvent ''rotate'' (getBearing s)
              (- (wrap v (- 180) 180 * RADIAN))) (renderLayers s2)))"
    using assms False by (simp add: setBearing_def Let_def s1_def)
  show ?thesis
    unfolding e c using assms s2
    by (cases r) (simp_all add: record_action_def renderLayers_def)
qed

lemma setPitch_post:
  assumes "\<not> ie9 s" "\<not> zooming s"
  shows "pitch (snd (setPitch v s)) = Some (clamp v 0 60 * RADIAN)
       \<and> \<not> ie9 (snd (setPitch v s)) \<and> \<not> zooming (snd (setPitch v s))"
proof (cases "pitch s = Some (clamp v 0 60 * RADIAN)")
  case True
  then show ?thesis
    using assms by (simp add: setPitch_def)
next
  case False
  define s1 where "s1 = record_action CalcMatrices (s\<lparr>pitch := Some (clamp v 0 60 * RADIAN)\<rparr>)"
  have a: "pitch s1 = Some (clamp v 0 60 * RADIAN)"
    by (simp add: s1_def record_action_def)
  obtain r s2 where c: "calcMatrices s1 = (r, s2)"
    by (cases "calcMatrices s1") auto
  have s2: "pitch s2 = Some (clamp v 0 60 * RADIAN)" "ie9 s2 = ie9 s" "zooming s2 = zooming s"
    using calcMatrices_keeps_pitch [OF a] calcMatrices_frame [of s1] c
    by (simp_all add: s1_def record_action_def)
  have e: "setPitch v s =
      (case calcMatrices s1 of
         (Inl e, s2) \<Rightarrow> (Inl e, s2)
       | (Inr u, s2) \<Rightarrow>
           (Inr (), record_action (FireEvent ''pitch'' (getPitch s)
              (clamp v 0 60 * RADIAN)) (renderLayers s2)))"
    using assms False by (simp add: setPitch_def Let_def s1_def)
  show ?thesis
    unfolding e c using assms s2
    by (cases r) (simp_all add: record_action_def renderLayers_def)
qed

lemma setFov_post:
  assumes "\<not> zooming s" "fov s \<noteq> Some (max 0.01 (min 60 v))"
  shows "fov (snd (setFov v s)) = Some (max 0.01 (min 60 v) * RADIAN)"
proof -
  define f where "f = max 0.01 (min 60 v)"
  have fr: "f * RADIAN \<noteq> 0"
    using radian_nonzero by (simp add: f_def)
  define s1 where "s1 = record_action CalcMatrices ((snd (getFov s))\<lparr>fov := Some (f * RADIAN)\<rparr>)"
  have a: "fov s1 = Some (f * RADIAN)"
    by (simp add: s1_def record_action_def)
  obtain r s2 where c: "calcMatrices s1 = (r, s2)"
    by (cases "calcMatrices s1") auto
  have s2: "fov s2 = Some (f * RADIAN)"
    using calcMatrices_keeps_fov [OF a fr] c by simp
  have g: "getFov (renderLayers s2) = (f, renderLayers s2)"
    using s2 fr radian_nonzero
    by (simp add: getFov_def renderLayers_def record_action_def falsy_def Let_def)
  have e: "setFov v s =
      (case calcMatrices s1 of
         (Inl e, s3) \<Rightarrow> (Inl e, s3)
       | (Inr u, s3) \<Rightarrow>
           (let s4 = renderLayers s3; (to, s5) = getFov s4
            in (Inr (), record_action (FireEvent ''fovchange'' (fst (getFov s)) to) s5)))"
    using assms by (simp add: setFov_def Let_def split_def s1_def f_def)
  show ?thesis
    unfolding e c using s2 g
    by (cases r) (simp_all add: record_action_def renderLayers_def f_def)
qed

lemma setBearing_repeat:
  assumes "\<not> ie9 s"
  shows "setBearing v (snd (setBearing v s)) = (Inr (), snd (setBearing v s))"
proof (cases "zooming s")
  case True
  then show ?thesis
    using assms by (simp add: setBearing_def)
next
  case False
  with assms setBearing_post [of s v] show ?thesis
    by (simp add: setBearing_def [of v "snd (setBearing v s)"])
qed

lemma setPitch_repeat:
  assumes "\<not> ie9 s"
  shows "setPitch v (snd (setPitch v s)) = (Inr (), snd (setPitch v s))"
proof (cases "zooming s")
  case True
  then show ?thesis
    using assms by (simp add: setPitch_def)
next
  case False
  with assms setPitch_post [of s v] show ?thesis
    by (simp add: setPitch_def [of v "snd (setPitch v s)"])
qed

lemma setPitch_90:
  assumes "\<not> ie9 s" "\<not> zooming s"
  shows "getPitch (snd (setPitch 90 s)) = 60"
  using setPitch_post [OF assms, of 90]
  by (simp add: getPitch_def falsy_def clamp_def RADIAN_def)

lemma setBearing_270:
  assumes "\<not> ie9 s" "\<not> zooming s"
  shows "getBearing (snd (setBearing 270 s)) = - 90"
  using setBearing_post [OF assms, of 270]
  by (simp add: getBearing_def falsy_def wrap_values RADIAN_def)

lemma setFov_0:
  assumes "\<not> zooming s" "fov s \<noteq> Some 0.01"
  shows "fst (getFov (snd (setFov 0 s))) = 0.01"
  using setFov_post [of s 0] assms radian_nonzero
  by (simp add: getFov_def falsy_def Let_def)

text \<open>
  C4. \<open>setFov(1.8 / pi)\<close> stores 0.01 radians. A following \<open>setFov(0)\<close> clamps its
  input to 0.01, finds it equal to the stored number and returns without a change, so
  \<open>getFov()\<close> still answers \<open>1.8 / pi\<close> (about 0.573) and not the minimum 0.01.
\<close>

theorem setFov_zero_skipped:
  "fov (snd (setFov (1.8 / pi) fresh_map)) = Some 0.01
   \<and> setFov 0 (snd (setFov (1.8 / pi) fresh_map)) = (Inr (), snd (setFov (1.8 / pi) fresh_map))
   \<and> fst (getFov (snd (setFov 0 (snd (setFov (1.8 / pi) fresh_map))))) = 1.8 / pi
   \<and> 1.8 / pi \<noteq> (0.01::real)"
proof -
  define x :: real where "x = 1.8 / pi"
  have lo: "0.01 < x"
    unfolding x_def using pi_less_4 pi_gt_zero by (simp add: field_simps)
  have hi: "x < 60"
    unfolding x_def using pi_ge_two by (simp add: field_simps)
  have m: "max 0.01 (min 60 x) = x"
    using lo hi by simp
  have xr: "x * RADIAN = 0.01"
    by (simp add: x_def RADIAN_def)
  have "fov fresh_map \<noteq> Some (max 0.01 (min 60 x))"
    by (simp add: fresh_map_fields)
  then have f: "fov (snd (setFov x fresh_map)) = Some 0.01"
    using setFov_post [of fresh_map x]
    by (simp only: fresh_map_fields m xr not_False_eq_True)
  have n: "setFov 0 (snd (setFov x fresh_map)) = (Inr (), snd (setFov x fresh_map))"
    using f by (simp add: setFov_def [of 0])
  have "0.01 / RADIAN = x"
    by (simp add: x_def RADIAN_def)
  then have "fst (getFov (snd (setFov x fresh_map))) = x"
    using f by (simp add: getFov_def falsy_def Let_def)
  with f n lo show ?thesis
    unfolding x_def [symmetric] by simp
qed




lemma getPitch_effective: "getPitch s = 0 \<longleftrightarrow> effective 0 (pitch s) = 0"
  by (cases "pitch s") (auto simp: getPitch_def effective_def falsy_def)

lemma setBearing_zero_clears:
  assumes env: "\<not> ie9 s" "\<not> zooming s" and h: "height s = Some h" "h \<noteq> 0"
    and p: "effective 0 (pitch s) = 0"
    and a: "angle s = Some 0 \<longrightarrow>
        projMatrix s = None \<and> pixelMatrix s = None \<and> pixelMatrixInverse s = None
        \<and> cameraMatrix s = None"
  shows "fst (setBearing 0 s) = Inr ()
       \<and> projMatrix (snd (setBearing 0 s)) = None \<and> pixelMatrix (snd (setBearing 0 s)) = None
       \<and> pixelMatrixInverse (snd (setBearing 0 s)) = None
       \<and> cameraMatrix (snd (setBearing 0 s)) = None
       \<and> getPitch (snd (setBearing 0 s)) = 0 \<and> getBearing (snd (setBearing 0 s)) = 0
       \<and> height (snd (setBearing 0 s)) = Some h \<and> width (snd (setBearing 0 s)) = width s
       \<and> centerPoint (snd (setBearing 0 s)) = centerPoint s"
proof (cases "angle s = Some 0")
  case True
  then have "setBearing 0 s = (Inr (), s)"
    using env by (simp add: setBearing_def wrap_values)
  then show ?thesis
    using True a h p by (simp add: getPitch_effective getBearing_def falsy_def)
next
  case False
  define s1 where "s1 = record_action CalcMatrices (s\<lparr>angle := Some 0\<rparr>)"
  have h1: "height s1 = Some h" and e1: "effective 0 (pitch s1) = 0" "effective 0 (angle s1) = 0"
    using h p by (simp_all add: s1_def record_action_def effective_def falsy_def)
  note run = calcMatrices_flat [OF h1 h(2) e1]
  have e: "setBearing 0 s =
      (case calcMatrices s1 of
         (Inl e, s2) \<Rightarrow> (Inl e, s2)
       | (Inr u, s2) \<Rightarrow>
           (Inr (), record_action (FireEvent ''rotate'' (getBearing s) 0) (renderLayers s2)))"
    using env False by (simp add: setBearing_def Let_def s1_def wrap_values)
  show ?thesis
    unfolding e run using h
    by (simp add: record_action_def renderLayers_def clearMatrices_def getPitch_def
          getBearing_def falsy_def s1_def)
qed

lemma setPitch_zero_post:
  assumes env: "\<not> ie9 s" "\<not> zooming s" and h: "height s = Some h" "h \<noteq> 0"
    and tilted: "\<not> (falsy (pitch s) \<and> falsy (angle s))"
    and ok: "fst (setPitch 0 s) = Inr ()"
  shows "\<not> ie9 (snd (setPitch 0 s)) \<and> \<not> zooming (snd (setPitch 0 s))
       \<and> height (snd (setPitch 0 s)) = Some h \<and> width (snd (setPitch 0 s)) = width s
       \<and> centerPoint (snd (setPitch 0 s)) = centerPoint s
       \<and> effective 0 (pitch (snd (setPitch 0 s))) = 0
       \<and> (angle (snd (setPitch 0 s)) = Some 0 \<longrightarrow>
            projMatrix (snd (setPitch 0 s)) = None \<and> pixelMatrix (snd (setPitch 0 s)) = None
            \<and> pixelMatrixInverse (snd (setPitch 0 s)) = None
            \<and> cameraMatrix (snd (setPitch 0 s)) = None)"
proof (cases "pitch s = Some 0")
  case True
  then have "setPitch 0 s = (Inr (), s)"
    using env by (simp add: setPitch_def clamp_def)
  moreover from True tilted have "angle s \<noteq> Some 0"
    by (auto simp: falsy_def)
  ultimately show ?thesis
    using env h True by (simp add: effective_def falsy_def)
next
  case False
  define s1 where "s1 = record_action CalcMatrices (s\<lparr>pitch := Some 0\<rparr>)"
  have h1: "height s1 = Some h" and e1: "effective 0 (pitch s1) = 0"
    and a1: "effective 0 (angle s1) = effective 0 (angle s)"
    and nf: "\<not> falsy (height s1)"
    using h by (simp_all add: s1_def record_action_def effective_def falsy_def)
  have e: "setPitch 0 s =
      (case calcMatrices s1 of
         (Inl e, s2) \<Rightarrow> (Inl e, s2)
       | (Inr u, s2) \<Rightarrow>
           (Inr (), record_action (FireEvent ''pitch'' (getPitch s) 0) (renderLayers s2)))"
    using env False by (simp add: setPitch_def Let_def s1_def clamp_def)
  obtain r s2 where c: "calcMatrices s1 = (r, s2)"
    by (cases "calcMatrices s1") auto
  from ok have r: "r = Inr ()"
    unfolding e c by (cases r) simp_all
  have fr: "height s2 = Some h" "width s2 = width s" "centerPoint s2 = centerPoint s"
    "ie9 s2 = ie9 s" "zooming s2 = zooming s"
    using calcMatrices_frame [of s1] c h
    by (simp_all add: s1_def record_action_def)
  have cam: "pitch s2 = Some 0" "angle s2 = Some (effective 0 (angle s))"
    using calcMatrices_camera [OF nf] c e1 a1 by simp_all
  have cl: "projMatrix s2 = None \<and> pixelMatrix s2 = None \<and> pixelMatrixInverse s2 = None
        \<and> cameraMatrix s2 = None" if "effective 0 (angle s) = 0"
    using calcMatrices_flat [OF h1 h(2) e1] that a1 c
    by (simp add: clearMatrices_def)
  show ?thesis
    unfolding e c r using env fr cam cl
    by (simp add: record_action_def renderLayers_def effective_def falsy_def)
qed

section \<open>Clearing the matrices\<close>

lemma flat_projectors:
  assumes "pixelMatrix s = None" "pixelMatrixInverse s = None" "height s = Some h"
  shows "pointToContainerPoint s p None = p_add (p_sub p (centerPoint s None)) (width s / 2) (h / 2)"
    and "containerPointToPoint s p None = p_add (centerPoint s None) (px p - width s / 2) (py p - h / 2)"
  using assms
  by (simp_all add: pointToContainerPoint_def containerPointToPoint_def pointToPoint_def Let_def)

text \<open>
  C3. Let the backend support rotation, no zoom animation be in progress and the viewport
  height be set and not zero. Starting from a tilted state (pitch and bearing not both
  zero), if \<open>setPitch(0)\<close> does not raise, then \<open>setBearing(0)\<close> after it does not raise
  either, and afterwards \<open>getCameraMatrix()\<close> is null, all four derived matrices are
  undefined, pitch and bearing are zero and both projectors compute the flat-mode affine
  map.
\<close>

theorem pitch_bearing_zero_clears:
  assumes "\<not> ie9 s" "\<not> zooming s" "height s = Some h" "h \<noteq> 0"
    and "\<not> (falsy (pitch s) \<and> falsy (angle s))"
    and "fst (setPitch 0 s) = Inr ()"
  shows "fst (setBearing 0 (snd (setPitch 0 s))) = Inr ()
       \<and> getCameraMatrix (snd (setBearing 0 (snd (setPitch 0 s)))) = None
       \<and> projMatrix (snd (setBearing 0 (snd (setPitch 0 s)))) = None
       \<and> pixelMatrix (snd (setBearing 0 (snd (setPitch 0 s)))) = None
       \<and> pixelMatrixInverse (snd (setBearing 0 (snd (setPitch 0 s)))) = None
       \<and> getPitch (snd (setBearing 0 (snd (setPitch 0 s)))) = 0
       \<and> getBearing (snd (setBearing 0 (snd (setPitch 0 s)))) = 0
       \<and> pointToContainerPoint (snd (setBearing 0 (snd (setPitch 0 s)))) p None =
           p_add (p_sub p (centerPoint s None)) (width s / 2) (h / 2)
       \<and> containerPointToPoint (snd (setBearing 0 (snd (setPitch 0 s)))) p None =
           p_add (centerPoint s None) (px p - width s / 2) (py p - h / 2)"
proof -
  define s1 where "s1 = snd (setPitch 0 s)"
  define s2 where "s2 = snd (setBearing 0 s1)"
  note p1 = setPitch_zero_post [OF assms, folded s1_def]
  from p1 have env1: "\<not> ie9 s1" "\<not> zooming s1" and h1: "height s1 = Some h"
    and e1: "effective 0 (pitch s1) = 0"
    and c1: "angle s1 = Some 0 \<longrightarrow>
        projMatrix s1 = None \<and> pixelMatrix s1 = None \<and> pixelMatrixInverse s1 = None
        \<and> cameraMatrix s1 = None"
    and w1: "width s1 = width s" "centerPoint s1 = centerPoint s"
    by simp_all
  note p2 = setBearing_zero_clears [OF env1 h1 assms(4) e1 c1, folded s2_def]
  from p2 have m: "pixelMatrix s2 = None" "pixelMatrixInverse s2 = None" "height s2 = Some h"
    and w2: "width s2 = width s1" "centerPoint s2 = centerPoint s1"
    by simp_all
  show ?thesis
    unfolding s1_def [symmetric] s2_def [symmetric]
    using p2 flat_projectors [OF m, of p] w1 w2
    by (simp add: getCameraMatrix_def)
qed

lemma scenario_state:
  "\<not> ie9 (snd (setPitch 30 fresh_map))" "\<not> zooming (snd (setPitch 30 fresh_map))"
  "height (snd (setPitch 30 fresh_map)) = Some 600"
  "width (snd (setPitch 30 fresh_map)) = 800"
  "pitch (snd (setPitch 30 fresh_map)) = Some (pi / 6)"
  "angle (snd (setPitch 30 fresh_map)) = Some 0"
  "cameraMatrix (snd (setPitch 30 fresh_map)) \<noteq> None"
  "pixelMatrixInverse (snd (setPitch 30 fresh_map)) \<noteq> None"
  "centerPoint (snd (setPitch 30 fresh_map)) = (\<lambda>z. Point 0 0)"
  "resolution (snd (setPitch 30 fresh_map)) = (\<lambda>z. 1)"
  "maxZoom (snd (setPitch 30 fresh_map)) = 18"
proof -
  obtain mi where e: "setPitch 30 fresh_map =
       (Inr (), fresh_map\<lparr>fov := Some DEFAULT_FOV, pitch := Some (pi / 6), angle := Some 0,
          cameraToCenterDistance := Some (0.5 / tan (DEFAULT_FOV / 2) * 600),
          projMatrix := Some (translate (camera_basis DEFAULT_FOV (pi / 6) 0 800 600) (- 0, - 0, 0)),
          pixelMatrix := Some (pixel_matrix DEFAULT_FOV (pi / 6) 0 800 600 (Point 0 0)),
          pixelMatrixInverse := Some mi,
          cameraMatrix := Some (multiply (scale create (800 / 2, - 600 / 2, 1))
             (camera_basis DEFAULT_FOV (pi / 6) 0 800 600)),
          trace := [FireEvent ''pitch'' 0 (pi / 6), RenderLayers, CalcMatrices]\<rparr>)"
    using setPitch_30 by blast
  show "\<not> ie9 (snd (setPitch 30 fresh_map))" "\<not> zooming (snd (setPitch 30 fresh_map))"
    "height (snd (setPitch 30 fresh_map)) = Some 600"
    "width (snd (setPitch 30 fresh_map)) = 800"
    "pitch (snd (setPitch 30 fresh_map)) = Some (pi / 6)"
    "angle (snd (setPitch 30 fresh_map)) = Some 0"
    "cameraMatrix (snd (setPitch 30 fresh_map)) \<noteq> None"
    "pixelMatrixInverse (snd (setPitch 30 fresh_map)) \<noteq> None"
    "centerPoint (snd (setPitch 30 fresh_map)) = (\<lambda>z. Point 0 0)"
    "resolution (snd (setPitch 30 fresh_map)) = (\<lambda>z. 1)"
    "maxZoom (snd (setPitch 30 fresh_map)) = 18"
    unfolding e by (simp_all add: fresh_map_def)
qed

lemma setPitch_zero_ok:
  assumes env: "\<not> ie9 s" "\<not> zooming s" and h: "height s = Some h" "h \<noteq> 0"
    and a: "effective 0 (angle s) = 0"
  shows "fst (setPitch 0 s) = Inr ()"
proof (cases "pitch s = Some 0")
  case True
  then show ?thesis
    using env by (simp add: setPitch_def clamp_def)
next
  case False
  define s1 where "s1 = record_action CalcMatrices (s\<lparr>pitch := Some 0\<rparr>)"
  have h1: "height s1 = Some h" and e1: "effective 0 (pitch s1) = 0" "effective 0 (angle s1) = 0"
    using h a by (simp_all add: s1_def record_action_def effective_def falsy_def)
  have e: "setPitch 0 s =
      (case calcMatrices s1 of
         (Inl e, s2) \<Rightarrow> (Inl e, s2)
       | (Inr u, s2) \<Rightarrow>
           (Inr (), record_action (FireEvent ''pitch'' (getPitch s) 0) (renderLayers s2)))"
    using env False by (simp add: setPitch_def Let_def s1_def clamp_def)
  show ?thesis
    unfolding e calcMatrices_flat [OF h1 h(2) e1] by simp
qed

theorem pitch_bearing_zero_clears_witness:
  "fst (setBearing 0 (snd (setPitch 0 (snd (setPitch 30 fresh_map))))) = Inr ()
   \<and> getCameraMatrix (snd (setBearing 0 (snd (setPitch 0 (snd (setPitch 30 fresh_map)))))) = None
   \<and> pointToContainerPoint (snd (setBearing 0 (snd (setPitch 0 (snd (setPitch 30 fresh_map))))))
        (Point 0 100) None = Point 400 400"
proof -
  have t: "\<not> (falsy (pitch (snd (setPitch 30 fresh_map)))
      \<and> falsy (angle (snd (setPitch 30 fresh_map))))"
    by (simp add: scenario_state falsy_def)
  have ok: "fst (setPitch 0 (snd (setPitch 30 fresh_map))) = Inr ()"
    by (rule setPitch_zero_ok [OF scenario_state(1,2,3)])
       (simp_all add: scenario_state effective_def falsy_def)
  show ?thesis
    using pitch_bearing_zero_clears [OF scenario_state(1,2,3) _ t ok, of "Point 0 100"]
    by (simp add: scenario_state p_add_def p_sub_def)
qed

text \<open>
  With the viewport height at zero the two calls set pitch and bearing to zero and leave
  the camera matrix of the tilted state in place.
\<close>

theorem pitch_bearing_zero_clears_counterexample:
  "fst (setPitch 0 ((snd (setPitch 30 fresh_map))\<lparr>height := Some 0\<rparr>)) = Inr ()
   \<and> fst (setBearing 0 (snd (setPitch 0 ((snd (setPitch 30 fresh_map))\<lparr>height := Some 0\<rparr>))))
       = Inr ()
   \<and> getPitch (snd (setBearing 0 (snd (setPitch 0
        ((snd (setPitch 30 fresh_map))\<lparr>height := Some 0\<rparr>))))) = 0
   \<and> getBearing (snd (setBearing 0 (snd (setPitch 0
        ((snd (setPitch 30 fresh_map))\<lparr>height := Some 0\<rparr>))))) = 0
   \<and> getCameraMatrix (snd (setBearing 0 (snd (setPitch 0
        ((snd (setPitch 30 fresh_map))\<lparr>height := Some 0\<rparr>))))) \<noteq> None"
proof -
  define s where "s = (snd (setPitch 30 fresh_map))\<lparr>height := Some 0\<rparr>"
  define s1 where "s1 = record_action CalcMatrices (s\<lparr>pitch := Some 0\<rparr>)"
  have f: "\<not> ie9 s" "\<not> zooming s" "pitch s = Some (pi / 6)" "angle s = Some 0"
    "cameraMatrix s \<noteq> None"
    by (simp_all add: s_def scenario_state)
  have "falsy (height s1)"
    by (simp add: s1_def s_def record_action_def falsy_def)
  then have run: "calcMatrices s1 = (Inr (), s1)"
    by (rule calcMatrices_no_height)
  have "setPitch 0 s =
      (case calcMatrices s1 of
         (Inl e, s2) \<Rightarrow> (Inl e, s2)
       | (Inr u, s2) \<Rightarrow>
           (Inr (), record_action (FireEvent ''pitch'' (getPitch s) 0) (renderLayers s2)))"
    using f by (simp add: setPitch_def Let_def s1_def clamp_def)
  then have p: "setPitch 0 s =
      (Inr (), record_action (FireEvent ''pitch'' (getPitch s) 0) (renderLayers s1))"
    unfolding run by simp
  define s2 where "s2 = record_action (FireEvent ''pitch'' (getPitch s) 0) (renderLayers s1)"
  have g: "\<not> ie9 s2" "\<not> zooming s2" "pitch s2 = Some 0" "angle s2 = Some 0"
    "cameraMatrix s2 \<noteq> None"
    using f by (simp_all add: s2_def s1_def record_action_def renderLayers_def)
  have b: "setBearing 0 s2 = (Inr (), s2)"
    using g by (simp add: setBearing_def wrap_values)
  show ?thesis
    unfolding s_def [symmetric] p s2_def [symmetric]
    using b g by (simp add: getPitch_def getBearing_def getCameraMatrix_def falsy_def)
qed

section \<open>Outcomes of the matrix builder\<close>

lemma invert_zero_width: "invert (pixel_matrix fv pt an 0 h c) = None"
  by (simp add: invert_def determinant_pixel_matrix)

lemma invert_Some_determinant: "invert a = Some ai \<Longrightarrow> determinant a \<noteq> 0"
  by (auto simp: invert_def Let_def split: if_splits)

lemma radian_45: "45 * RADIAN = pi / 4" "clamp 45 0 60 = 45"
  by (simp_all add: RADIAN_def clamp_def)

text \<open>
  C2. What a run of \<open>_calcMatrices\<close> leaves behind. With the viewport height unset
  or zero it returns with the map as it was. Otherwise the camera fields hold their
  values with the defaults put in, and: in flat mode (pitch and bearing both zero) the
  run does not raise and all four derived matrices are cleared; in tilted mode
  \<open>projMatrix\<close> and \<open>pixelMatrix\<close> are the matrices built for the new camera state,
  and either the new pixel matrix has an inverse, the run does not raise and
  \<open>pixelMatrixInverse\<close> and \<open>cameraMatrix\<close> are those of the new state as well, or it
  has none, the run raises the inversion error and \<open>pixelMatrixInverse\<close> and
  \<open>cameraMatrix\<close> still hold what they held before.
\<close>

theorem calcMatrices_outcomes:
  assumes "calcMatrices s = (r, s')"
  shows "(falsy (height s) \<longrightarrow> r = Inr () \<and> s' = s)
       \<and> (\<not> falsy (height s) \<longrightarrow>
            fov s' = Some (effective DEFAULT_FOV (fov s))
            \<and> pitch s' = Some (effective 0 (pitch s))
            \<and> angle s' = Some (effective 0 (angle s)))
       \<and> (\<not> falsy (height s) \<and> the (pitch s') = 0 \<and> the (angle s') = 0 \<longrightarrow>
            r = Inr () \<and> projMatrix s' = None \<and> pixelMatrix s' = None
            \<and> pixelMatrixInverse s' = None \<and> cameraMatrix s' = None)
       \<and> (\<not> falsy (height s) \<and> \<not> (the (pitch s') = 0 \<and> the (angle s') = 0) \<longrightarrow>
            projMatrix s' =
              Some (translate (camera_basis (the (fov s')) (the (pitch s')) (the (angle s'))
                      (width s') (the (height s')))
                    (- px (centerPoint s' None), - py (centerPoint s' None), 0))
            \<and> pixelMatrix s' =
              Some (pixel_matrix (the (fov s')) (the (pitch s')) (the (angle s'))
                      (width s') (the (height s')) (centerPoint s' None))
            \<and> (invert (pixel_matrix (the (fov s')) (the (pitch s')) (the (angle s'))
                      (width s') (the (height s')) (centerPoint s' None)) \<noteq> None \<longrightarrow>
                 r = Inr ()
                 \<and> pixelMatrixInverse s' =
                     invert (pixel_matrix (the (fov s')) (the (pitch s')) (the (angle s'))
                       (width s') (the (height s')) (centerPoint s' None))
                 \<and> cameraMatrix s' =
                     Some (multiply (scale create (width s' / 2, - the (height s') / 2, 1))
                       (camera_basis (the (fov s')) (the (pitch s')) (the (angle s'))
                          (width s') (the (height s')))))
            \<and> (invert (pixel_matrix (the (fov s')) (the (pitch s')) (the (angle s'))
                      (width s') (the (height s')) (centerPoint s' None)) = None \<longrightarrow>
                 r = Inl InvertFailed
                 \<and> pixelMatrixInverse s' = pixelMatrixInverse s
                 \<and> cameraMatrix s' = cameraMatrix s))"
proof (cases "falsy (height s)")
  case True
  then show ?thesis
    using assms by (simp add: calcMatrices_no_height)
next
  case False
  then obtain h where h: "height s = Some h" "h \<noteq> 0"
    by (cases "height s") (auto simp: falsy_def)
  show ?thesis
  proof (cases "effective 0 (pitch s) = 0 \<and> effective 0 (angle s) = 0")
    case True
    with assms have "r = Inr ()"
      and "s' = clearMatrices (s\<lparr>fov := Some (effective DEFAULT_FOV (fov s)),
          pitch := Some 0, angle := Some 0\<rparr>)"
      by (simp_all add: calcMatrices_flat [OF h])
    then show ?thesis
      using False True by (simp add: clearMatrices_def)
  next
    case nonflat: False
    then have t: "effective 0 (pitch s) \<noteq> 0 \<or> effective 0 (angle s) \<noteq> 0"
      by simp
    show ?thesis
    proof (cases "invert (pixel_matrix (effective DEFAULT_FOV (fov s)) (effective 0 (pitch s))
        (effective 0 (angle s)) (width s) h (centerPoint s None))")
      case None
      with assms have "r = Inl InvertFailed"
        and "s' = s\<lparr>fov := Some (effective DEFAULT_FOV (fov s)),
            pitch := Some (effective 0 (pitch s)), angle := Some (effective 0 (angle s)),
            cameraToCenterDistance := Some (0.5 / tan (effective DEFAULT_FOV (fov s) / 2) * h),
            projMatrix := Some (translate (camera_basis (effective DEFAULT_FOV (fov s))
                (effective 0 (pitch s)) (effective 0 (angle s)) (width s) h)
                (- px (centerPoint s None), - py (centerPoint s None), 0)),
            pixelMatrix := Some (pixel_matrix (effective DEFAULT_FOV (fov s))
                (effective 0 (pitch s)) (effective 0 (angle s)) (width s) h
                (centerPoint s None))\<rparr>"
        by (simp_all add: calcMatrices_tilted [OF h t] Let_def)
      then show ?thesis
        using h None False nonflat by simp
    next
      case (Some mi)
      with assms have "r = Inr ()"
        and "s' = s\<lparr>fov := Some (effective DEFAULT_FOV (fov s)),
            pitch := Some (effective 0 (pitch s)), angle := Some (effective 0 (angle s)),
            cameraToCenterDistance := Some (0.5 / tan (effective DEFAULT_FOV (fov s) / 2) * h),
            projMatrix := Some (translate (camera_basis (effective DEFAULT_FOV (fov s))
                (effective 0 (pitch s)) (effective 0 (angle s)) (width s) h)
                (- px (centerPoint s None), - py (centerPoint s None), 0)),
            pixelMatrix := Some (pixel_matrix (effective DEFAULT_FOV (fov s))
                (effective 0 (pitch s)) (effective 0 (angle s)) (width s) h
                (centerPoint s None)),
            pixelMatrixInverse := Some mi,
            cameraMatrix := Some (multiply (scale create (width s / 2, - h / 2, 1))
                (camera_basis (effective DEFAULT_FOV (fov s)) (effective 0 (pitch s))
                   (effective 0 (angle s)) (width s) h))\<rparr>"
        by (simp_all add: calcMatrices_tilted [OF h t] Let_def)
      then show ?thesis
        using h Some False nonflat by simp
    qed
  qed
qed

theorem calcMatrices_outcomes_witness:
  "fst (calcMatrices (fresh_map\<lparr>width := 0, pitch := Some (pi / 4)\<rparr>)) = Inl InvertFailed
   \<and> projMatrix (snd (calcMatrices (fresh_map\<lparr>width := 0, pitch := Some (pi / 4)\<rparr>))) =
       Some (translate (camera_basis DEFAULT_FOV (pi / 4) 0 0 600) (0, 0, 0))
   \<and> pixelMatrix (snd (calcMatrices (fresh_map\<lparr>width := 0, pitch := Some (pi / 4)\<rparr>))) =
       Some (pixel_matrix DEFAULT_FOV (pi / 4) 0 0 600 (Point 0 0))
   \<and> pixelMatrixInverse (snd (calcMatrices (fresh_map\<lparr>width := 0, pitch := Some (pi / 4)\<rparr>)))
       = None
   \<and> cameraMatrix (snd (calcMatrices (fresh_map\<lparr>width := 0, pitch := Some (pi / 4)\<rparr>))) = None"
proof -
  define s where "s = fresh_map\<lparr>width := 0, pitch := Some (pi / 4)\<rparr>"
  have h: "\<not> falsy (height s)"
    by (simp add: s_def fresh_map_fields falsy_def)
  have fr: "width (snd (calcMatrices s)) = 0" "height (snd (calcMatrices s)) = Some 600"
    "centerPoint (snd (calcMatrices s)) = (\<lambda>z. Point 0 0)"
    using calcMatrices_frame [of s] by (simp_all add: s_def fresh_map_fields)
  have eff: "effective DEFAULT_FOV (fov s) = DEFAULT_FOV" "effective 0 (pitch s) = pi / 4"
    "effective 0 (angle s) = 0"
    by (simp_all add: s_def fresh_map_fields effective_def falsy_def)
  have old: "pixelMatrixInverse s = None" "cameraMatrix s = None"
    by (simp_all add: s_def fresh_map_fields)
  show ?thesis
    unfolding s_def [symmetric]
    using calcMatrices_outcomes [of s "fst (calcMatrices s)" "snd (calcMatrices s)"] h
    by (simp add: fr eff old invert_zero_width)
qed

text \<open>
  The tilted map of the scenario, its viewport then reduced to width zero: \<open>setPitch(45)\<close>
  raises the inversion error; afterwards the pitch is 45 degrees and the pixel matrix is
  a new one, while the inverse pixel matrix and the camera matrix are still those of the
  pitch of 30 degrees. (In the source the zero width makes the aspect ratio zero, the
  perspective matrix infinite and the determinant not a number, which \<open>invert\<close> treats
  like zero; here the quotient is zero and so is the determinant.)
\<close>

theorem calcMatrices_outcomes_counterexample:
  "fst (setPitch 45 ((snd (setPitch 30 fresh_map))\<lparr>width := 0\<rparr>)) = Inl InvertFailed
   \<and> getPitch (snd (setPitch 45 ((snd (setPitch 30 fresh_map))\<lparr>width := 0\<rparr>))) = 45
   \<and> pixelMatrix (snd (setPitch 45 ((snd (setPitch 30 fresh_map))\<lparr>width := 0\<rparr>))) \<noteq> None
   \<and> pixelMatrix (snd (setPitch 45 ((snd (setPitch 30 fresh_map))\<lparr>width := 0\<rparr>)))
       \<noteq> pixelMatrix ((snd (setPitch 30 fresh_map))\<lparr>width := 0\<rparr>)
   \<and> pixelMatrixInverse (snd (setPitch 45 ((snd (setPitch 30 fresh_map))\<lparr>width := 0\<rparr>)))
       = pixelMatrixInverse ((snd (setPitch 30 fresh_map))\<lparr>width := 0\<rparr>)
   \<and> pixelMatrixInverse ((snd (setPitch 30 fresh_map))\<lparr>width := 0\<rparr>) \<noteq> None
   \<and> cameraMatrix (snd (setPitch 45 ((snd (setPitch 30 fresh_map))\<lparr>width := 0\<rparr>)))
       = cameraMatrix ((snd (setPitch 30 fresh_map))\<lparr>width := 0\<rparr>)
   \<and> cameraMatrix ((snd (setPitch 30 fresh_map))\<lparr>width := 0\<rparr>) \<noteq> None"
proof -
  define s where "s = (snd (setPitch 30 fresh_map))\<lparr>width := 0\<rparr>"
  obtain mi where mi: "invert (pixel_matrix DEFAULT_FOV (pi / 6) 0 800 600 (Point 0 0)) = Some mi"
    using setPitch_30 by blast
  have pm: "pixelMatrix s = Some (pixel_matrix DEFAULT_FOV (pi / 6) 0 800 600 (Point 0 0))"
    by (simp add: s_def scenario_pixelMatrix)
  have f: "\<not> ie9 s" "\<not> zooming s" "pitch s = Some (pi / 6)" "angle s = Some 0"
    "cameraMatrix s \<noteq> None" "pixelMatrixInverse s \<noteq> None" "height s = Some 600"
    "width s = 0"
    by (simp_all add: s_def scenario_state)
  define s1 where "s1 = record_action CalcMatrices (s\<lparr>pitch := Some (pi / 4)\<rparr>)"
  have h1: "height s1 = Some 600" "(600::real) \<noteq> 0" and w1: "width s1 = 0"
    and e1: "effective 0 (pitch s1) = pi / 4"
    and old: "pixelMatrixInverse s1 = pixelMatrixInverse s" "cameraMatrix s1 = cameraMatrix s"
    using f by (simp_all add: s1_def record_action_def effective_def falsy_def)
  have t: "effective 0 (pitch s1) \<noteq> 0 \<or> effective 0 (angle s1) \<noteq> 0"
    by (simp add: e1)
  define s2 where "s2 = snd (calcMatrices s1)"
  have r: "fst (calcMatrices s1) = Inl InvertFailed"
    and s2: "pitch s2 = Some (pi / 4)"
      "pixelMatrix s2 = Some (pixel_matrix (effective DEFAULT_FOV (fov s1)) (pi / 4)
          (effective 0 (angle s1)) 0 600 (centerPoint s1 None))"
      "pixelMatrixInverse s2 = pixelMatrixInverse s" "cameraMatrix s2 = cameraMatrix s"
    unfolding s2_def
    by (simp_all add: calcMatrices_tilted [OF h1 t] Let_def w1 invert_zero_width e1 old)
  have c: "calcMatrices s1 = (Inl InvertFailed, s2)"
    using r by (simp add: s2_def prod_eq_iff)
  have d: "pixel_matrix (effective DEFAULT_FOV (fov s1)) (pi / 4)
          (effective 0 (angle s1)) 0 600 (centerPoint s1 None)
        \<noteq> pixel_matrix DEFAULT_FOV (pi / 6) 0 800 600 (Point 0 0)"
    using mi invert_zero_width [of "effective DEFAULT_FOV (fov s1)" "pi / 4"
        "effective 0 (angle s1)" 600 "centerPoint s1 None"]
    by auto
  have e: "setPitch 45 s =
      (case calcMatrices s1 of
         (Inl e, s2) \<Rightarrow> (Inl e, s2)
       | (Inr u, s2) \<Rightarrow>
           (Inr (), record_action (FireEvent ''pitch'' (getPitch s) (pi / 4)) (renderLayers s2)))"
    using f by (simp add: setPitch_def Let_def s1_def radian_45)
  have "setPitch 45 s = (Inl InvertFailed, s2)"
    unfolding e c by simp
  then show ?thesis
    unfolding s_def [symmetric]
    using s2 d f pm by (simp add: getPitch_def falsy_def)
qed

section \<open>Rotation of a point symbol\<close>

lemma pointToContainerPoint_zoom:
  "pointToContainerPoint s p zoom = pointToContainerPoint s (pointToPoint s p zoom) None"
  by (simp add: pointToContainerPoint_def pointToPoint_def)

text \<open>
  C8. Without a rotations array \<open>_getRotationAt(i)\<close> returns the base rotation as it is.
  With one, it returns the base rotation (zero when unset) plus the directional angle of
  the \<open>i\<close>-th pair of reference points; when the map has a camera matrix, the angle is
  taken between the container points of the two reference points, projected at the
  maximum zoom, and otherwise between the reference points themselves. An index outside
  the array raises a type error.
\<close>

theorem getRotationAt_result:
  "(rotations smb = None \<longrightarrow> getRotationAt computeDegree m smb i = Inr (rotation smb))
   \<and> (rotations smb = Some rs \<and> i < length rs \<and> getCameraMatrix m \<noteq> None \<longrightarrow>
        getRotationAt computeDegree m smb i =
          Inr (Some (effective 0 (rotation smb) +
            computeDegree (pointToContainerPoint m (fst (rs ! i)) (Some (maxZoom m)))
                          (pointToContainerPoint m (snd (rs ! i)) (Some (maxZoom m))))))
   \<and> (rotations smb = Some rs \<and> i < length rs \<and> getCameraMatrix m = None \<longrightarrow>
        getRotationAt computeDegree m smb i =
          Inr (Some (effective 0 (rotation smb) +
            computeDegree (fst (rs ! i)) (snd (rs ! i)))))
   \<and> (rotations smb = Some rs \<and> \<not> i < length rs \<longrightarrow>
        getRotationAt computeDegree m smb i = Inl TypeError)"
  by (simp add: getRotationAt_def Let_def effective_def)

theorem getRotationAt_result_witness:
  "getRotationAt (\<lambda>p q. px p + px q) (snd (setPitch 30 fresh_map))
      \<lparr>rotation = Some 10, rotations = Some [(Point 0 0, Point 0 0)]\<rparr> 0 = Inr (Some 810)
   \<and> getRotationAt (\<lambda>p q. px p + px q) fresh_map
      \<lparr>rotation = Some 10, rotations = Some [(Point 0 0, Point 0 0)]\<rparr> 0 = Inr (Some 10)
   \<and> getRotationAt (\<lambda>p q. px p + px q) (snd (setPitch 30 fresh_map))
      \<lparr>rotation = None, rotations = None\<rparr> 0 = Inr None"
proof -
  have c: "getCameraMatrix (snd (setPitch 30 fresh_map)) \<noteq> None"
    by (simp add: getCameraMatrix_def scenario_state)
  have n: "getCameraMatrix fresh_map = None"
    by (simp add: getCameraMatrix_def fresh_map_fields)
  have p: "pointToContainerPoint (snd (setPitch 30 fresh_map)) (Point 0 0)
      (Some (maxZoom (snd (setPitch 30 fresh_map)))) = Point 400 300"
    using scenario_forward [of 0]
    by (simp add: pointToContainerPoint_zoom [of _ _ "Some _"] pointToPoint_def p_multi_def
          scenario_state)
  show ?thesis
    using getRotationAt_result [of "\<lparr>rotation = Some 10, rotations = Some [(Point 0 0, Point 0 0)]\<rparr>"
        "\<lambda>p q. px p + px q" "snd (setPitch 30 fresh_map)" 0 "[(Point 0 0, Point 0 0)]"]
      getRotationAt_result [of "\<lparr>rotation = Some 10, rotations = Some [(Point 0 0, Point 0 0)]\<rparr>"
        "\<lambda>p q. px p + px q" fresh_map 0 "[(Point 0 0, Point 0 0)]"]
      getRotationAt_result [of "\<lparr>rotation = None, rotations = None\<rparr>"
        "\<lambda>p q. px p + px q" "snd (setPitch 30 fresh_map)" 0 "[]"]
      c n
    by (simp add: p effective_def falsy_def)
qed

section \<open>Capability check and viewport guard\<close>

lemma calcMatrices_error: "fst (calcMatrices s) = Inl e \<Longrightarrow> e = InvertFailed"
  by (auto simp: calcMatrices_def Let_def split: if_splits option.splits)

lemma setFov_error: "fst (setFov v s) = Inl e \<Longrightarrow> e = InvertFailed"
proof -
  assume a: "fst (setFov v s) = Inl e"
  obtain r t where c: "calcMatrices (record_action CalcMatrices
      ((snd (getFov s))\<lparr>fov := Some (max 0.01 (min 60 v) * RADIAN)\<rparr>)) = (r, t)"
    by (cases "calcMatrices (record_action CalcMatrices
      ((snd (getFov s))\<lparr>fov := Some (max 0.01 (min 60 v) * RADIAN)\<rparr>))") auto
  from a c have "r = Inl e"
    by (cases r) (auto simp: setFov_def Let_def split_def split: if_splits)
  with c calcMatrices_error show ?thesis
    by (metis fst_conv)
qed

text \<open>
  C9. Where \<open>Browser.ie9\<close> holds, \<open>setBearing\<close> and \<open>setPitch\<close> raise their capability
  error in every state, a zooming one included, and leave the map as it was; \<open>setFov\<close>
  has no such check: whatever it raises is not a capability error.
\<close>

theorem ie9_capability_error:
  assumes "ie9 s"
  shows "setBearing b s = (Inl CannotRotate, s)
       \<and> setPitch p s = (Inl CannotTilt, s)
       \<and> fst (setFov v s) \<noteq> Inl CannotRotate \<and> fst (setFov v s) \<noteq> Inl CannotTilt"
proof -
  have "setBearing b s = (Inl CannotRotate, s)"
    using assms by (simp add: setBearing_def)
  moreover have "setPitch p s = (Inl CannotTilt, s)"
    using assms by (simp add: setPitch_def)
  moreover have "fst (setFov v s) \<noteq> Inl CannotRotate \<and> fst (setFov v s) \<noteq> Inl CannotTilt"
    using setFov_error [of v s] by auto
  ultimately show ?thesis by simp
qed

theorem ie9_capability_error_witness:
  "ie9 (fresh_map\<lparr>zooming := True, ie9 := True\<rparr>)
   \<and> zooming (fresh_map\<lparr>zooming := True, ie9 := True\<rparr>)
   \<and> fst (setBearing 45 (fresh_map\<lparr>zooming := True, ie9 := True\<rparr>)) = Inl CannotRotate
   \<and> fst (setPitch 30 (fresh_map\<lparr>zooming := True, ie9 := True\<rparr>)) = Inl CannotTilt
   \<and> fst (setFov 30 (fresh_map\<lparr>zooming := True, ie9 := True\<rparr>)) = Inr ()"
proof -
  have i: "ie9 (fresh_map\<lparr>zooming := True, ie9 := True\<rparr>)"
    by simp
  have f: "fst (setFov 30 (fresh_map\<lparr>zooming := True, ie9 := True\<rparr>)) = Inr ()"
    by (simp add: setFov_def)
  show ?thesis
    using ie9_capability_error [OF i, of 45 30 30] f
    by simp
qed

text \<open>
  C10. With the viewport height unset or zero, \<open>_calcMatrices\<close> returns at once and the
  map is exactly as before: the four stored matrices are neither rebuilt nor cleared, and
  the projectors go on reading them.
\<close>

theorem calcMatrices_without_height:
  assumes "height s = None \<or> height s = Some 0"
  shows "calcMatrices s = (Inr (), s)
       \<and> projMatrix (snd (calcMatrices s)) = projMatrix s
       \<and> pixelMatrix (snd (calcMatrices s)) = pixelMatrix s
       \<and> pixelMatrixInverse (snd (calcMatrices s)) = pixelMatrixInverse s
       \<and> cameraMatrix (snd (calcMatrices s)) = cameraMatrix s
       \<and> pointToContainerPoint (snd (calcMatrices s)) = pointToContainerPoint s
       \<and> containerPointToPoint (snd (calcMatrices s)) = containerPointToPoint s"
proof -
  from assms have "falsy (height s)"
    by (auto simp: falsy_def)
  then have "calcMatrices s = (Inr (), s)"
    by (simp add: calcMatrices_def)
  then show ?thesis
    by simp
qed

theorem calcMatrices_without_height_witness:
  "height (fresh_map\<lparr>height := Some 0, pitch := Some 1, pixelMatrix := Some create,
       cameraMatrix := Some create\<rparr>) = Some 0
   \<and> pixelMatrix (snd (calcMatrices (fresh_map\<lparr>height := Some 0, pitch := Some 1,
       pixelMatrix := Some create, cameraMatrix := Some create\<rparr>))) = Some create
   \<and> cameraMatrix (snd (calcMatrices (fresh_map\<lparr>height := Some 0, pitch := Some 1,
       pixelMatrix := Some create, cameraMatrix := Some create\<rparr>))) = Some create"
proof -
  have h: "height (fresh_map\<lparr>height := Some 0, pitch := Some 1, pixelMatrix := Some create,
       cameraMatrix := Some create\<rparr>) = None
     \<or> height (fresh_map\<lparr>height := Some 0, pitch := Some 1, pixelMatrix := Some create,
       cameraMatrix := Some create\<rparr>) = Some 0"
    by simp
  show ?thesis
    using calcMatrices_without_height [OF h]
    by simp
qed

end
